theory Spec2Isabelle
  imports Main "HOL-Library.AList" "HOL-Library.Sublist" "HOL-Library.List_Lexorder"
    "HOL-Library.Log_Nat" "HOL-Library.Monad_Syntax"
begin

section \<open>Strings\<close>

text \<open>
  A Python \<open>str\<close> is a sequence of Unicode code points, so it is modelled as a list of
  code point numbers; \<open>ascii\<close> embeds an ASCII literal. Folder names of the asset bundle
  carry the bullet U+2022, which is one code point.

  Three library functions are modelled on the part of Unicode the editor meets:
  \<^item> \<open>isspace\<close> is the set of code points that \<open>str.strip\<close> removes and that the regular
    expression class \<open>\s\<close> matches (Python's whitespace table);
  \<^item> \<open>isdigit\<close> is the class \<open>\d\<close> on the ASCII digits (Python also accepts the decimal
    digits of other scripts, which are not modelled);
  \<^item> \<open>lower\<close> maps the ASCII capitals and leaves every other code point as it is (Python
    also maps the capitals beyond ASCII, which are not modelled).
\<close>

type_synonym str = "nat list"

definition ascii :: "string \<Rightarrow> str" where
  "ascii s = map of_char s"

definition isspace :: "nat \<Rightarrow> bool" where
  "isspace c \<longleftrightarrow>
     (0x09 \<le> c \<and> c \<le> 0x0D) \<or> (0x1C \<le> c \<and> c \<le> 0x20) \<or> c = 0x85 \<or> c = 0xA0 \<or>
     c = 0x1680 \<or> (0x2000 \<le> c \<and> c \<le> 0x200A) \<or> c = 0x2028 \<or> c = 0x2029 \<or>
     c = 0x202F \<or> c = 0x205F \<or> c = 0x3000"

definition isdigit :: "nat \<Rightarrow> bool" where
  "isdigit c \<longleftrightarrow> 0x30 \<le> c \<and> c \<le> 0x39"

definition lower_cp :: "nat \<Rightarrow> nat" where
  "lower_cp c = (if 0x41 \<le> c \<and> c \<le> 0x5A then c + 32 else c)"

definition lower :: "str \<Rightarrow> str" where
  "lower s = map lower_cp s"

text \<open>\<open>s.strip()\<close>: whitespace is removed at both ends.\<close>

definition strip :: "str \<Rightarrow> str" where
  "strip s = rev (dropWhile isspace (rev (dropWhile isspace s)))"

text \<open>\<open>s.startswith(p)\<close>, \<open>s.endswith(p)\<close> and \<open>p in s\<close>.\<close>

definition startswith :: "str \<Rightarrow> str \<Rightarrow> bool" where
  "startswith s p = prefix p s"

definition endswith :: "str \<Rightarrow> str \<Rightarrow> bool" where
  "endswith s p = suffix p s"

definition contains :: "str \<Rightarrow> str \<Rightarrow> bool" where
  "contains s p = sublist p s"


section \<open>Realm Brew folder detection\<close>

text \<open>
  \<open>re.sub(r"^\d\s*[\<bullet>\<cdot>]\s*", "", folder_name)\<close>: the pattern is anchored at the start, so
  at most one match is removed: one digit, any whitespace, a bullet (U+2022) or a middle
  dot (U+00B7), any whitespace. A name that does not start this way is returned as it is.
\<close>

definition sub_ordinal :: "str \<Rightarrow> str" where
  "sub_ordinal folder_name =
     (case folder_name of
        [] \<Rightarrow> folder_name
      | d # rest \<Rightarrow>
          if isdigit d then
            (case dropWhile isspace rest of
               [] \<Rightarrow> folder_name
             | b # rest' \<Rightarrow>
                 if b = 0x2022 \<or> b = 0xB7 then dropWhile isspace rest' else folder_name)
          else folder_name)"

text \<open>
  The two loops of \<open>_clean_display_name\<close>: the first prefix (suffix) of the list that the
  name starts (ends) with is cut off, and the loop stops there.
\<close>

fun strip_first_prefix :: "str list \<Rightarrow> str \<Rightarrow> str" where
  "strip_first_prefix [] name = name"
| "strip_first_prefix (p # ps) name =
     (if startswith name p then drop (length p) name else strip_first_prefix ps name)"

fun strip_first_suffix :: "str list \<Rightarrow> str \<Rightarrow> str" where
  "strip_first_suffix [] name = name"
| "strip_first_suffix (s # ss) name =
     (if endswith name s then take (length name - length s) name
      else strip_first_suffix ss name)"

definition clean_display_name :: "str \<Rightarrow> str" where
  "clean_display_name folder_name =
     (let name = sub_ordinal folder_name;
          name = strip_first_prefix [ascii ''Realm Brew - '', ascii ''Realm Brew ''] name;
          name = strip_first_suffix
                   [ascii '' - Digital Tiles'', ascii '' - Digital Overlays'',
                    ascii '' Digital Tiles'', ascii '' Digital Overlays'',
                    ascii '' Tiles'', ascii '' Overlays''] name
      in strip name)"

definition is_overlay_folder :: "str \<Rightarrow> bool" where
  "is_overlay_folder name = contains (lower name) (ascii ''overlay'')"

definition is_tile_folder :: "str \<Rightarrow> bool" where
  "is_tile_folder name =
     (let low = lower name
      in list_ex (\<lambda>k. contains low k)
           [ascii ''tile'', ascii ''dungeon'', ascii ''river'', ascii ''cavern'',
            ascii ''subterranean'', ascii ''underdark''])"


section \<open>The asset library\<close>

text \<open>
  \<open>TileInfo\<close> and \<open>OverlayInfo\<close> have the same three fields. Their fourth attribute
  \<open>name\<close>, a label derived from the file name for the status line, is not modelled.
\<close>

record AssetInfo =
  path :: str
  category :: str
  display_category :: str

text \<open>
  What \<open>TileLibrary.load\<close> reads of the file system: the entries of the root folder, each
  with its name, whether it is a directory, and the paths that \<open>glob("*.png")\<close> finds in it.
\<close>

record DirEntry =
  name :: str
  is_dir :: bool
  pngs :: "str list"

record TileLibrary =
  categories :: "(str \<times> AssetInfo list) list"
  overlay_categories :: "(str \<times> AssetInfo list) list"

text \<open>
  One round of the loop of \<open>TileLibrary.load\<close>. A dictionary keeps its keys in the order of
  their first insertion and an assignment to a present key replaces the value in place,
  which is \<^const>\<open>AList.update\<close> on an association list.
\<close>

definition load_dir :: "TileLibrary \<Rightarrow> DirEntry \<Rightarrow> TileLibrary" where
  "load_dir lib d =
     (if \<not> is_dir d then lib
      else let ps = sort (pngs d) in
        if ps = [] then lib
        else let display = clean_display_name (name d) in
          if is_overlay_folder (name d) then
            lib\<lparr>overlay_categories :=
                  AList.update display
                    (map (\<lambda>p. \<lparr>path = p, category = name d, display_category = display\<rparr>) ps)
                    (overlay_categories lib)\<rparr>
          else
            lib\<lparr>categories :=
                  AList.update display
                    (map (\<lambda>p. \<lparr>path = p, category = name d, display_category = display\<rparr>) ps)
                    (categories lib)\<rparr>)"

text \<open>
  \<open>TileLibrary.load\<close>: both dictionaries are reset, the entries are visited in sorted
  order, and the result says whether anything was found.
\<close>

definition library_load :: "DirEntry list \<Rightarrow> TileLibrary \<times> bool" where
  "library_load entries =
     (let lib = foldl load_dir \<lparr>categories = [], overlay_categories = []\<rparr> (sort_key name entries)
      in (lib, categories lib \<noteq> [] \<or> overlay_categories lib \<noteq> []))"


section \<open>Numbers\<close>

subsection \<open>Binary64 rounding\<close>

text \<open>
  A Python \<open>float\<close> is an IEEE 754 binary64 value. A finite one is modelled by its exact
  value, a rational number; the sign of zero is not represented (no operation of the editor
  tells \<open>-0.0\<close> from \<open>0.0\<close>).

  \<open>rnd64 x\<close> is the double nearest to the rational \<open>x\<close>, ties to the even significand:
  \<open>expo x\<close> is the exponent of the last place of \<open>x\<close> (at least \<open>-1074\<close>, which gives the
  subnormal numbers), \<open>round_at e x\<close> rounds \<open>x\<close> to a multiple of \<open>2 ^ e\<close>, and a result of
  magnitude \<open>2 ^ 1024\<close> or more is an infinity.
\<close>

datatype pyfloat = Fin rat | PInf | NInf | NaN

definition pow2 :: "int \<Rightarrow> rat" where
  "pow2 e = (if 0 \<le> e then 2 ^ nat e else 1 / 2 ^ nat (- e))"

text \<open>Rounding to the nearest integer, ties to the even one.\<close>

definition half_even :: "int \<Rightarrow> rat \<Rightarrow> int" where
  "half_even f d = (if d < 1 / 2 then f else if 1 / 2 < d then f + 1
                    else if even f then f else f + 1)"

definition rhe :: "rat \<Rightarrow> int" where
  "rhe x = (if x < 0 then - half_even \<lfloor>- x\<rfloor> (- x - of_int \<lfloor>- x\<rfloor>)
            else half_even \<lfloor>x\<rfloor> (x - of_int \<lfloor>x\<rfloor>))"

text \<open>
  \<open>ilog2 x\<close> is the integer \<open>e\<close> with \<open>2 ^ e \<le> x < 2 ^ (e + 1)\<close>, for \<open>x > 0\<close>;
  \<open>ceil_pred y\<close> is the largest integer below \<open>y\<close>.
\<close>

definition ceil_pred :: "rat \<Rightarrow> int" where
  "ceil_pred y = (if of_int \<lfloor>y\<rfloor> = y then \<lfloor>y\<rfloor> - 1 else \<lfloor>y\<rfloor>)"

definition ilog2 :: "rat \<Rightarrow> int" where
  "ilog2 x = (if 1 \<le> x then bitlen \<lfloor>x\<rfloor> - 1 else - bitlen (ceil_pred (1 / x)))"

definition expo :: "rat \<Rightarrow> int" where
  "expo x = max (ilog2 \<bar>x\<bar> - 52) (- 1074)"

definition overflow :: "rat \<Rightarrow> pyfloat" where
  "overflow y = (if pow2 1024 \<le> \<bar>y\<bar> then (if 0 < y then PInf else NInf) else Fin y)"

definition round_at :: "int \<Rightarrow> rat \<Rightarrow> pyfloat" where
  "round_at e x = overflow (of_int (rhe (x / pow2 e)) * pow2 e)"

text \<open>The rounded value at the exponent \<open>e\<close>, before the check for overflow.\<close>

definition grid :: "int \<Rightarrow> rat \<Rightarrow> rat" where
  "grid e x = of_int (rhe (x / pow2 e)) * pow2 e"

definition rnd64 :: "rat \<Rightarrow> pyfloat" where
  "rnd64 x = (if x = 0 then Fin 0 else round_at (expo x) x)"

subsection \<open>Float arithmetic\<close>

text \<open>
  The IEEE operations: the exact result is rounded once; infinities and NaN follow the
  standard's tables. Python raises \<open>ZeroDivisionError\<close> for a division or a remainder by
  zero, which is the result \<open>None\<close>.
\<close>

fun fneg :: "pyfloat \<Rightarrow> pyfloat" where
  "fneg (Fin x) = Fin (- x)"
| "fneg PInf = NInf"
| "fneg NInf = PInf"
| "fneg NaN = NaN"

fun fadd :: "pyfloat \<Rightarrow> pyfloat \<Rightarrow> pyfloat" where
  "fadd (Fin x) (Fin y) = rnd64 (x + y)"
| "fadd NaN b = NaN"
| "fadd a NaN = NaN"
| "fadd PInf NInf = NaN"
| "fadd NInf PInf = NaN"
| "fadd PInf b = PInf"
| "fadd a PInf = PInf"
| "fadd NInf b = NInf"
| "fadd a NInf = NInf"

definition fsub :: "pyfloat \<Rightarrow> pyfloat \<Rightarrow> pyfloat" where
  "fsub a b = fadd a (fneg b)"

fun fsign :: "pyfloat \<Rightarrow> int" where
  "fsign (Fin x) = (if 0 < x then 1 else if x < 0 then - 1 else 0)"
| "fsign PInf = 1"
| "fsign NInf = - 1"
| "fsign NaN = 0"

fun fmul :: "pyfloat \<Rightarrow> pyfloat \<Rightarrow> pyfloat" where
  "fmul (Fin x) (Fin y) = rnd64 (x * y)"
| "fmul a b = (if a = NaN \<or> b = NaN \<or> fsign a * fsign b = 0 then NaN
               else if 0 < fsign a * fsign b then PInf else NInf)"

fun fdiv :: "pyfloat \<Rightarrow> pyfloat \<Rightarrow> pyfloat option" where
  "fdiv (Fin x) (Fin y) = (if y = 0 then None else Some (rnd64 (x / y)))"
| "fdiv NaN b = (if b = Fin 0 then None else Some NaN)"
| "fdiv a NaN = Some NaN"
| "fdiv (Fin x) b = Some (Fin 0)"
| "fdiv a (Fin y) =
     (if y = 0 then None else if 0 < fsign a * fsign (Fin y) then Some PInf else Some NInf)"
| "fdiv a b = Some NaN"

text \<open>The comparison \<open>a < b\<close>; every comparison with NaN is false.\<close>

fun flt :: "pyfloat \<Rightarrow> pyfloat \<Rightarrow> bool" where
  "flt (Fin x) (Fin y) = (x < y)"
| "flt NaN b = False"
| "flt a NaN = False"
| "flt NInf b = (b \<noteq> NInf)"
| "flt a PInf = (a \<noteq> PInf)"
| "flt a b = False"

text \<open>
  Python's float remainder \<open>v % w\<close> (\<open>float_rem\<close>): C's \<open>fmod\<close>, which is exact and has the
  sign of \<open>v\<close>, and then, when the remainder is not zero and its sign differs from the sign
  of \<open>w\<close>, the float addition of \<open>w\<close>.
\<close>

definition trunc :: "rat \<Rightarrow> int" where
  "trunc q = (if 0 \<le> q then \<lfloor>q\<rfloor> else - \<lfloor>- q\<rfloor>)"

definition fmod_exact :: "rat \<Rightarrow> rat \<Rightarrow> rat" where
  "fmod_exact v w = v - w * of_int (trunc (v / w))"

definition sign_fix :: "rat \<Rightarrow> rat \<Rightarrow> pyfloat" where
  "sign_fix m w = (if m \<noteq> 0 \<and> (w < 0) \<noteq> (m < 0) then rnd64 (m + w) else Fin m)"

fun float_rem :: "pyfloat \<Rightarrow> pyfloat \<Rightarrow> pyfloat option" where
  "float_rem (Fin v) (Fin w) = (if w = 0 then None else Some (sign_fix (fmod_exact v w) w))"
| "float_rem a (Fin w) = (if w = 0 then None else Some NaN)"
| "float_rem (Fin v) PInf = Some (if v < 0 then PInf else Fin v)"
| "float_rem (Fin v) NInf = Some (if 0 < v then NInf else Fin v)"
| "float_rem a b = Some NaN"

subsection \<open>Python numbers\<close>

text \<open>
  A number of the program is an \<open>int\<close> (unbounded) or a \<open>float\<close>. An operation on two ints is
  exact; on an int and a float the int is converted first, which raises \<open>OverflowError\<close> when
  it is too large for a double. \<open>None\<close> is the raised exception.
\<close>

datatype number = I int | F pyfloat

definition float_of_int :: "int \<Rightarrow> pyfloat option" where
  "float_of_int n = (case rnd64 (of_int n) of Fin y \<Rightarrow> Some (Fin y) | _ \<Rightarrow> None)"

fun to_float :: "number \<Rightarrow> pyfloat option" where
  "to_float (I n) = float_of_int n"
| "to_float (F x) = Some x"

fun num_add :: "number \<Rightarrow> number \<Rightarrow> number option" where
  "num_add (I x) (I y) = Some (I (x + y))"
| "num_add a b = do { x \<leftarrow> to_float a; y \<leftarrow> to_float b; Some (F (fadd x y)) }"

fun num_sub :: "number \<Rightarrow> number \<Rightarrow> number option" where
  "num_sub (I x) (I y) = Some (I (x - y))"
| "num_sub a b = do { x \<leftarrow> to_float a; y \<leftarrow> to_float b; Some (F (fsub x y)) }"

fun num_mul :: "number \<Rightarrow> number \<Rightarrow> number option" where
  "num_mul (I x) (I y) = Some (I (x * y))"
| "num_mul a b = do { x \<leftarrow> to_float a; y \<leftarrow> to_float b; Some (F (fmul x y)) }"

text \<open>\<open>a / b\<close>: the quotient of two ints is their exact quotient, rounded once.\<close>

fun num_truediv :: "number \<Rightarrow> number \<Rightarrow> number option" where
  "num_truediv (I x) (I y) =
     (if y = 0 then None
      else case rnd64 (of_int x / of_int y) of Fin q \<Rightarrow> Some (F (Fin q)) | _ \<Rightarrow> None)"
| "num_truediv a b = do { x \<leftarrow> to_float a; y \<leftarrow> to_float b; q \<leftarrow> fdiv x y; Some (F q) }"

text \<open>\<open>a % b\<close>: on ints the remainder has the sign of the divisor, as \<open>mod\<close> has.\<close>

fun num_mod :: "number \<Rightarrow> number \<Rightarrow> number option" where
  "num_mod (I x) (I y) = (if y = 0 then None else Some (I (x mod y)))"
| "num_mod a b = do { x \<leftarrow> to_float a; y \<leftarrow> to_float b; r \<leftarrow> float_rem x y; Some (F r) }"

text \<open>\<open>a < b\<close>: an int and a float are compared by their exact values.\<close>

fun num_lt :: "number \<Rightarrow> number \<Rightarrow> bool" where
  "num_lt (I x) (I y) = (x < y)"
| "num_lt (I x) (F b) = flt (Fin (of_int x)) b"
| "num_lt (F a) (I y) = flt a (Fin (of_int y))"
| "num_lt (F a) (F b) = flt a b"

text \<open>\<open>a <= b\<close>, \<open>abs(a)\<close>, and \<open>int(a)\<close>, which cuts the fraction of a float off and raises
  for an infinity or NaN.\<close>

fun fle :: "pyfloat \<Rightarrow> pyfloat \<Rightarrow> bool" where
  "fle (Fin x) (Fin y) = (x \<le> y)"
| "fle NaN b = False"
| "fle a NaN = False"
| "fle NInf b = True"
| "fle a PInf = True"
| "fle a b = False"

fun num_le :: "number \<Rightarrow> number \<Rightarrow> bool" where
  "num_le (I x) (I y) = (x \<le> y)"
| "num_le (I x) (F b) = fle (Fin (of_int x)) b"
| "num_le (F a) (I y) = fle a (Fin (of_int y))"
| "num_le (F a) (F b) = fle a b"

fun num_abs :: "number \<Rightarrow> number" where
  "num_abs (I n) = I \<bar>n\<bar>"
| "num_abs (F (Fin x)) = F (Fin \<bar>x\<bar>)"
| "num_abs (F NaN) = F NaN"
| "num_abs (F a) = F PInf"

fun py_int :: "number \<Rightarrow> int option" where
  "py_int (I n) = Some n"
| "py_int (F (Fin x)) = Some (trunc x)"
| "py_int (F a) = None"

text \<open>\<open>max(a, b)\<close> and \<open>min(a, b)\<close> return the first argument unless the second is beyond it.\<close>

definition py_max :: "number \<Rightarrow> number \<Rightarrow> number" where
  "py_max a b = (if num_lt a b then b else a)"

definition py_min :: "number \<Rightarrow> number \<Rightarrow> number" where
  "py_min a b = (if num_lt b a then b else a)"

text \<open>
  \<open>round(x)\<close> is the nearest int, ties to even; it raises for an infinity or NaN.
  \<open>round(x, 2)\<close> on a float is the double nearest to the decimal with two places nearest
  to \<open>x\<close> (ties to the even decimal); an int, an infinity and NaN are returned as they are.
\<close>

fun num_round :: "number \<Rightarrow> int option" where
  "num_round (I n) = Some n"
| "num_round (F (Fin x)) = Some (rhe x)"
| "num_round (F a) = None"

fun num_round2 :: "number \<Rightarrow> number" where
  "num_round2 (I n) = I n"
| "num_round2 (F (Fin x)) = F (rnd64 (of_int (rhe (x * 100)) / 100))"
| "num_round2 (F a) = F a"

text \<open>
  \<open>x ** 2\<close>: on a float it is C's \<open>pow(x, 2.0)\<close>, taken as the correctly rounded square;
  Python raises \<open>OverflowError\<close> when the square of a finite float is not finite.
\<close>

fun num_sq :: "number \<Rightarrow> number option" where
  "num_sq (I n) = Some (I (n * n))"
| "num_sq (F (Fin x)) = (case rnd64 (x * x) of Fin y \<Rightarrow> Some (F (Fin y)) | _ \<Rightarrow> None)"
| "num_sq (F NaN) = Some (F NaN)"
| "num_sq (F a) = Some (F PInf)"


section \<open>Hex math (flat-top)\<close>

text \<open>\<open>math.sqrt(3)\<close> is the double nearest to the square root of three.\<close>

definition sqrt3 :: pyfloat where
  "sqrt3 = Fin (3900231685776981 / 2 ^ 51)"

text \<open>
  \<open>hex_to_pixel(col, row, size)\<close>, with \<open>col\<close>, \<open>row\<close> and \<open>size\<close> ints (the hex size of the
  editor is always an int). \<open>col & 1\<close> is \<open>col mod 2\<close>, also for a negative \<open>col\<close>.
\<close>

definition hex_to_pixel :: "int \<Rightarrow> int \<Rightarrow> int \<Rightarrow> (number \<times> number) option" where
  "hex_to_pixel col row hsize =
     do { w \<leftarrow> num_mul (I hsize) (F (Fin (3 / 2)));
          x \<leftarrow> num_mul w (I col);
          h \<leftarrow> num_mul (I hsize) (F sqrt3);
          off \<leftarrow> num_mul (F (Fin (1 / 2))) (I (col mod 2));
          v \<leftarrow> num_add (I row) off;
          y \<leftarrow> num_mul h v;
          Some (x, y) }"

text \<open>
  The body of the double loop of \<open>pixel_to_hex\<close> for one pair \<open>(dc, dr)\<close>: the candidate
  cell and its squared distance to the point.
\<close>

definition candidate ::
  "number \<Rightarrow> number \<Rightarrow> int \<Rightarrow> int \<Rightarrow> int \<times> int \<Rightarrow> ((int \<times> int) \<times> number) option" where
  "candidate px py hsize col dcdr =
     do { let c = col + fst dcdr;
          h \<leftarrow> num_mul (I hsize) (F sqrt3);
          q \<leftarrow> num_truediv py h;
          off \<leftarrow> num_mul (F (Fin (1 / 2))) (I (c mod 2));
          e \<leftarrow> num_sub q off;
          r0 \<leftarrow> num_round e;
          let r = r0 + snd dcdr;
          (hx, hy) \<leftarrow> hex_to_pixel c r hsize;
          dx \<leftarrow> num_sub px hx;
          dx2 \<leftarrow> num_sq dx;
          dy \<leftarrow> num_sub py hy;
          dy2 \<leftarrow> num_sq dy;
          d \<leftarrow> num_add dx2 dy2;
          Some ((c, r), d) }"

text \<open>The loop: \<open>best\<close> and \<open>best_d\<close> are replaced when a candidate is strictly nearer.\<close>

fun scan ::
  "number \<Rightarrow> number \<Rightarrow> int \<Rightarrow> int \<Rightarrow> (int \<times> int) list \<Rightarrow> (int \<times> int) \<times> number
     \<Rightarrow> ((int \<times> int) \<times> number) option" where
  "scan px py hsize col [] best = Some best"
| "scan px py hsize col (dcdr # rest) best =
     do { (cr, d) \<leftarrow> candidate px py hsize col dcdr;
          scan px py hsize col rest (if num_lt d (snd best) then (cr, d) else best) }"

definition offsets :: "(int \<times> int) list" where
  "offsets = concat (map (\<lambda>dc. map (\<lambda>dr. (dc, dr)) [- 2, - 1, 0, 1, 2]) [- 1, 0, 1])"

definition pixel_to_hex :: "number \<Rightarrow> number \<Rightarrow> int \<Rightarrow> (int \<times> int) option" where
  "pixel_to_hex px py hsize =
     do { w \<leftarrow> num_mul (I hsize) (F (Fin (3 / 2)));
          q \<leftarrow> num_truediv px w;
          col \<leftarrow> num_round q;
          best \<leftarrow> scan px py hsize col offsets ((col, 0), F PInf);
          Some (fst best) }"


section \<open>Data classes\<close>

text \<open>
  The fields have the types of the persisted format: coordinates and the rotation step of a
  tile are ints, paths and categories are strings, and the offsets, the rotation and the
  scale of an overlay are numbers (an int where the text has no fraction, as the defaults
  \<open>0\<close> are, and a float otherwise).
\<close>

record PlacedTile =
  tile_col :: int
  tile_row :: int
  tile_path :: str
  tile_category :: str
  tile_rotation :: int

record PlacedOverlay =
  ov_col :: int
  ov_row :: int
  ov_path :: str
  offset_x :: number
  offset_y :: number
  ov_rotation :: number
  ov_scale :: number

definition OVERLAY_SCALE_DEFAULT :: number where
  "OVERLAY_SCALE_DEFAULT = F (Fin (1 / 2))"

text \<open>
  \<open>tiles\<close> is a dictionary from \<open>(col, row)\<close> to the tile, in insertion order;
  \<open>filepath\<close> is \<open>None\<close> until the first save or load.
\<close>

record HexMap =
  tiles :: "((int \<times> int) \<times> PlacedTile) list"
  overlays :: "PlacedOverlay list"
  filepath :: "str option"


text \<open>
  What the list of \<open>tiles\<close> has as a dictionary of the editor: no key twice, and every tile
  under the key of its own coordinate. The empty map has it, and \<open>load\<close> and a click keep it.
\<close>

definition dict_ok :: "((int \<times> int) \<times> PlacedTile) list \<Rightarrow> bool" where
  "dict_ok ts \<longleftrightarrow>
     distinct (map fst ts) \<and> list_all (\<lambda>kt. fst kt = (tile_col (snd kt), tile_row (snd kt))) ts"


section \<open>Saving and loading a map\<close>

text \<open>
  The JSON document of a map: an object with the arrays \<open>tiles\<close> and \<open>overlays\<close> of
  objects. A document is taken to hold values of the types of the format; any key may be
  absent, which is \<open>None\<close>. A file is unreadable (\<open>open\<close> raises), malformed (\<open>json.load\<close>
  raises), or holds a document; \<open>json.dump\<close> followed by \<open>json.load\<close> gives the document
  back, so the store holds the document itself.
\<close>

record TileDoc =
  td_col :: "int option"
  td_row :: "int option"
  td_path :: "str option"
  td_category :: "str option"
  td_rotation :: "int option"

record OverlayDoc =
  od_col :: "int option"
  od_row :: "int option"
  od_path :: "str option"
  od_offset_x :: "number option"
  od_offset_y :: "number option"
  od_rotation :: "number option"
  od_scale :: "number option"

record MapDoc =
  doc_tiles :: "TileDoc list option"
  doc_overlays :: "OverlayDoc list option"

datatype file_content = Unreadable | Malformed | Document MapDoc

datatype error = OSError | JSONDecodeError | KeyError str

text \<open>\<open>d.get(key, default)\<close>.\<close>

definition get_default :: "'a option \<Rightarrow> 'a \<Rightarrow> 'a" where
  "get_default v d = (case v of None \<Rightarrow> d | Some x \<Rightarrow> x)"





text \<open>
  One element of the two comprehensions of \<open>HexMap.load\<close>: \<open>t["col"]\<close> raises \<open>KeyError\<close>
  when the key is absent; the key of the dictionary is built before the tile, so the keys
  are read in the order \<open>col\<close>, \<open>row\<close>, \<open>path\<close>.
\<close>

definition read_tile :: "TileDoc \<Rightarrow> error + PlacedTile" where
  "read_tile t =
     (case td_col t of None \<Rightarrow> Inl (KeyError (ascii ''col'')) | Some c \<Rightarrow>
      case td_row t of None \<Rightarrow> Inl (KeyError (ascii ''row'')) | Some r \<Rightarrow>
      case td_path t of None \<Rightarrow> Inl (KeyError (ascii ''path'')) | Some p \<Rightarrow>
        Inr \<lparr>tile_col = c, tile_row = r, tile_path = p,
             tile_category = get_default (td_category t) [],
             tile_rotation = get_default (td_rotation t) 0\<rparr>)"

definition read_overlay :: "OverlayDoc \<Rightarrow> error + PlacedOverlay" where
  "read_overlay ov =
     (case od_col ov of None \<Rightarrow> Inl (KeyError (ascii ''col'')) | Some c \<Rightarrow>
      case od_row ov of None \<Rightarrow> Inl (KeyError (ascii ''row'')) | Some r \<Rightarrow>
      case od_path ov of None \<Rightarrow> Inl (KeyError (ascii ''path'')) | Some p \<Rightarrow>
        Inr \<lparr>ov_col = c, ov_row = r, ov_path = p,
             offset_x = get_default (od_offset_x ov) (I 0),
             offset_y = get_default (od_offset_y ov) (I 0),
             ov_rotation = get_default (od_rotation ov) (I 0),
             ov_scale = get_default (od_scale ov) OVERLAY_SCALE_DEFAULT\<rparr>)"

text \<open>The dictionary comprehension: a later tile with the key of an earlier one replaces it.\<close>

fun read_tiles ::
  "TileDoc list \<Rightarrow> ((int \<times> int) \<times> PlacedTile) list \<Rightarrow> error + ((int \<times> int) \<times> PlacedTile) list"
  where
  "read_tiles [] acc = Inr acc"
| "read_tiles (t # ts) acc =
     (case read_tile t of
        Inl e \<Rightarrow> Inl e
      | Inr pt \<Rightarrow> read_tiles ts (AList.update (tile_col pt, tile_row pt) pt acc))"

fun read_overlays :: "OverlayDoc list \<Rightarrow> error + PlacedOverlay list" where
  "read_overlays [] = Inr []"
| "read_overlays (ov # ovs) =
     (case read_overlay ov of
        Inl e \<Rightarrow> Inl e
      | Inr po \<Rightarrow> (case read_overlays ovs of Inl e \<Rightarrow> Inl e | Inr pos \<Rightarrow> Inr (po # pos)))"

text \<open>
  \<open>HexMap.load\<close>. The result is the exception raised, if any, and the map as the call
  leaves it. The three assignments run in the order of the source: \<open>self.tiles\<close> is assigned
  as soon as the first comprehension has run, before the overlays are read.
\<close>

definition load :: "HexMap \<Rightarrow> str \<Rightarrow> (str \<Rightarrow> file_content) \<Rightarrow> error option \<times> HexMap" where
  "load m p fs =
     (case fs p of
        Unreadable \<Rightarrow> (Some OSError, m)
      | Malformed \<Rightarrow> (Some JSONDecodeError, m)
      | Document data \<Rightarrow>
          (case read_tiles (get_default (doc_tiles data) []) [] of
             Inl e \<Rightarrow> (Some e, m)
           | Inr ts \<Rightarrow>
               (case read_overlays (get_default (doc_overlays data) []) of
                  Inl e \<Rightarrow> (Some e, m\<lparr>tiles := ts\<rparr>)
                | Inr os \<Rightarrow> (None, m\<lparr>tiles := ts, overlays := os, filepath := Some p\<rparr>))))"


section \<open>The editor\<close>

text \<open>
  The state of \<open>App\<close> that the handlers below read or write. The camera is a pair of
  floats; the indices are \<open>None\<close> or a position in a list; \<open>drag_ov_offset\<close> starts as the
  pair of ints \<open>(0, 0)\<close>.
\<close>

datatype Mode = View | Place_tile | Place_overlay

record App =
  library :: TileLibrary
  hex_map :: HexMap
  hex_size :: int
  cam_x :: number
  cam_y :: number
  mode :: Mode
  selected_hex :: "(int \<times> int) option"
  sel_category :: "str option"
  sel_tile_idx :: "nat option"
  placement_rot :: int
  selected_ov_idx :: "nat option"
  sel_ov_category :: "str option"
  sel_overlay_idx :: "nat option"
  drag_ov_idx :: "nat option"
  drag_ov_offset :: "number \<times> number"

definition MIN_HEX_SIZE :: int where "MIN_HEX_SIZE = 20"
definition MAX_HEX_SIZE :: int where "MAX_HEX_SIZE = 160"

definition to_hex :: "App \<Rightarrow> int \<Rightarrow> int \<Rightarrow> (int \<times> int) option" where
  "to_hex app ex ey =
     do { px \<leftarrow> num_sub (I ex) (cam_x app);
          py \<leftarrow> num_sub (I ey) (cam_y app);
          pixel_to_hex px py (hex_size app) }"

text \<open>
  \<open>_overlay_hit(ex, ey)\<close>: the overlays are tried from the last to the first, and the first
  whose square about its centre holds the point is the hit. The second comparison of the
  \<open>and\<close> runs only when the first is true.
\<close>

definition overlay_under :: "App \<Rightarrow> int \<Rightarrow> int \<Rightarrow> PlacedOverlay \<Rightarrow> bool option" where
  "overlay_under app ex ey ov =
     do { (hx, hy) \<leftarrow> hex_to_pixel (ov_col ov) (ov_row ov) (hex_size app);
          ax \<leftarrow> num_add (cam_x app) hx;
          cx \<leftarrow> num_add ax (offset_x ov);
          ay \<leftarrow> num_add (cam_y app) hy;
          cy \<leftarrow> num_add ay (offset_y ov);
          w \<leftarrow> num_mul (I (hex_size app)) (ov_scale ov);
          w' \<leftarrow> num_mul w (F (rnd64 (6 / 5)));
          hw \<leftarrow> py_int w';
          dx \<leftarrow> num_sub (I ex) cx;
          if num_le (num_abs dx) (I hw)
          then do { dy \<leftarrow> num_sub (I ey) cy; Some (num_le (num_abs dy) (I hw)) }
          else Some False }"

fun hit_scan :: "App \<Rightarrow> int \<Rightarrow> int \<Rightarrow> nat list \<Rightarrow> nat option option" where
  "hit_scan app ex ey [] = Some None"
| "hit_scan app ex ey (i # rest) =
     do { b \<leftarrow> overlay_under app ex ey (overlays (hex_map app) ! i);
          if b then Some (Some i) else hit_scan app ex ey rest }"

definition overlay_hit :: "App \<Rightarrow> int \<Rightarrow> int \<Rightarrow> nat option option" where
  "overlay_hit app ex ey = hit_scan app ex ey (rev [0 ..< length (overlays (hex_map app))])"

text \<open>
  \<open>_on_click(event)\<close>. In the mode \<open>place_overlay\<close> a click on an overlay selects it and
  starts a drag, and a click elsewhere appends the overlay chosen in the sidebar, with the
  defaults of \<open>PlacedOverlay\<close>, and selects it; the handler returns there. In the other modes
  the clicked hex is selected, and in the mode \<open>place_tile\<close> with a tile chosen in the sidebar
  the tile is stored under the clicked coordinate. A category that is \<open>None\<close> or the empty
  string counts as not chosen.
\<close>

definition click_overlay :: "App \<Rightarrow> int \<Rightarrow> int \<Rightarrow> int \<Rightarrow> int \<Rightarrow> App option" where
  "click_overlay app ex ey col row =
     do { hit \<leftarrow> overlay_hit app ex ey;
          case hit of
            Some h \<Rightarrow>
              do { let ov = overlays (hex_map app) ! h;
                   (hx, hy) \<leftarrow> hex_to_pixel (ov_col ov) (ov_row ov) (hex_size app);
                   ax \<leftarrow> num_add (cam_x app) hx;
                   vx \<leftarrow> num_sub (I ex) ax;
                   ox \<leftarrow> num_sub vx (offset_x ov);
                   ay \<leftarrow> num_add (cam_y app) hy;
                   vy \<leftarrow> num_sub (I ey) ay;
                   oy \<leftarrow> num_sub vy (offset_y ov);
                   Some (app\<lparr>selected_ov_idx := Some h, drag_ov_idx := Some h,
                              drag_ov_offset := (ox, oy)\<rparr>) }
          | None \<Rightarrow>
              Some (case (sel_overlay_idx app, sel_ov_category app) of
                      (Some i, Some cat) \<Rightarrow>
                        if cat = [] then app
                        else let ovs = get_default (map_of (overlay_categories (library app)) cat) []
                          in if i < length ovs then
                            app\<lparr>hex_map := (hex_map app)\<lparr>overlays :=
                                   overlays (hex_map app) @
                                     [\<lparr>ov_col = col, ov_row = row, ov_path = path (ovs ! i),
                                       offset_x = I 0, offset_y = I 0, ov_rotation = I 0,
                                       ov_scale = OVERLAY_SCALE_DEFAULT\<rparr>]\<rparr>,
                                 selected_ov_idx := Some (length (overlays (hex_map app)))\<rparr>
                          else app
                    | _ \<Rightarrow> app) }"

definition click_tile :: "App \<Rightarrow> int \<Rightarrow> int \<Rightarrow> App" where
  "click_tile app col row =
     (let app = app\<lparr>selected_hex := Some (col, row)\<rparr>
      in case (mode app, sel_tile_idx app, sel_category app) of
           (Place_tile, Some i, Some cat) \<Rightarrow>
             if cat = [] then app
             else let ts = get_default (map_of (categories (library app)) cat) [] in
               if i < length ts then
                 app\<lparr>hex_map := (hex_map app)\<lparr>tiles :=
                   AList.update (col, row)
                     \<lparr>tile_col = col, tile_row = row, tile_path = path (ts ! i),
                      tile_category = cat, tile_rotation = placement_rot app\<rparr>
                     (tiles (hex_map app))\<rparr>\<rparr>
               else app
         | _ \<Rightarrow> app)"

definition on_click :: "App \<Rightarrow> int \<Rightarrow> int \<Rightarrow> App option" where
  "on_click app ex ey =
     do { (col, row) \<leftarrow> to_hex app ex ey;
          if mode app = Place_overlay then click_overlay app ex ey col row
          else Some (click_tile app col row) }"

text \<open>
  \<open>_zoom(direction, event)\<close>: the hex size moves by five within its bounds, and the camera
  is moved about the pointer by the ratio of the new size to the old.
\<close>

definition zoom :: "App \<Rightarrow> int \<Rightarrow> int \<Rightarrow> int \<Rightarrow> App option" where
  "zoom app direction ex ey =
     do { let old = hex_size app;
          let new = max MIN_HEX_SIZE (min MAX_HEX_SIZE (hex_size app + direction * 5));
          scale \<leftarrow> num_truediv (I new) (I old);
          dx \<leftarrow> num_sub (I ex) (cam_x app);
          sx \<leftarrow> num_mul scale dx;
          cx \<leftarrow> num_sub (I ex) sx;
          dy \<leftarrow> num_sub (I ey) (cam_y app);
          sy \<leftarrow> num_mul scale dy;
          cy \<leftarrow> num_sub (I ey) sy;
          Some (app\<lparr>hex_size := new, cam_x := cx, cam_y := cy\<rparr>) }"

text \<open>
  \<open>_rotate_overlay(delta)\<close> and \<open>_scale_overlay(delta)\<close> change the selected overlay in
  place, when \<open>selected_ov_idx\<close> is an index of the list of overlays; the editor calls them
  with \<open>15\<close> and \<open>-15\<close>, and with \<open>0.1\<close> and \<open>-0.1\<close>.
\<close>

definition selected_overlay :: "App \<Rightarrow> (nat \<times> PlacedOverlay) option" where
  "selected_overlay app =
     (case selected_ov_idx app of
        None \<Rightarrow> None
      | Some i \<Rightarrow>
          if i < length (overlays (hex_map app)) then Some (i, overlays (hex_map app) ! i)
          else None)"

definition put_overlay :: "App \<Rightarrow> nat \<Rightarrow> PlacedOverlay \<Rightarrow> App" where
  "put_overlay app i ov =
     app\<lparr>hex_map := (hex_map app)\<lparr>overlays := (overlays (hex_map app))[i := ov]\<rparr>\<rparr>"

text \<open>\<open>(ov.rotation + delta) % 360\<close>.\<close>

definition rotated :: "number \<Rightarrow> int \<Rightarrow> number option" where
  "rotated r delta = do { s \<leftarrow> num_add r (I delta); num_mod s (I 360) }"

definition rotate_overlay :: "App \<Rightarrow> int \<Rightarrow> App option" where
  "rotate_overlay app delta =
     (case selected_overlay app of
        None \<Rightarrow> Some app
      | Some (i, ov) \<Rightarrow>
          do { r \<leftarrow> rotated (ov_rotation ov) delta;
               Some (put_overlay app i (ov\<lparr>ov_rotation := r\<rparr>)) })"

text \<open>The double nearest to one tenth, which the literals \<open>0.1\<close> and \<open>-0.1\<close> of the source denote
  (the latter with the sign).\<close>

definition tenth :: rat where
  "tenth = 3602879701896397 / 2 ^ 55"

text \<open>\<open>round(max(0.1, min(5.0, ov.scale + delta)), 2)\<close>; the literal \<open>0.1\<close> is the double
  nearest to one tenth.\<close>

definition scaled :: "number \<Rightarrow> number \<Rightarrow> number option" where
  "scaled s delta =
     do { t \<leftarrow> num_add s delta;
          Some (num_round2 (py_max (F (rnd64 (1 / 10))) (py_min (F (Fin 5)) t))) }"

definition scale_overlay :: "App \<Rightarrow> number \<Rightarrow> App option" where
  "scale_overlay app delta =
     (case selected_overlay app of
        None \<Rightarrow> Some app
      | Some (i, ov) \<Rightarrow>
          do { s \<leftarrow> scaled (ov_scale ov) delta;
               Some (put_overlay app i (ov\<lparr>ov_scale := s\<rparr>)) })"

text \<open>A handler run \<open>n\<close> times; an exception ends the run.\<close>

definition repeat :: "nat \<Rightarrow> (App \<Rightarrow> App option) \<Rightarrow> App \<Rightarrow> App option" where
  "repeat n h app = ((\<lambda>a. a \<bind> h) ^^ n) (Some app)"


section \<open>Evaluation of the float operations\<close>

text \<open>
  Facts that let the simplifier compute with the definitions above on numerals: the floor of
  a quotient of numerals, the bit length sixteen bits at a time, and a congruence rule that
  evaluates the first part of a \<open>do\<close> block before the rest.
\<close>

lemma floor_rat_numeral:
  "\<lfloor>numeral a / numeral b :: rat\<rfloor> = numeral a div numeral b"
  "\<lfloor>1 / numeral b :: rat\<rfloor> = 1 div numeral b"
  using floor_divide_of_int_eq[of "numeral a" "numeral b", where ?'a = rat]
        floor_divide_of_int_eq[of 1 "numeral b", where ?'a = rat]
  by simp_all

lemma bitlen_div_pow2: "0 < x div 2 ^ n \<Longrightarrow> bitlen x = bitlen (x div 2 ^ n) + int n"
proof (induction n arbitrary: x)
  case 0
  then show ?case by simp
next
  case (Suc n)
  have d: "x div 2 ^ Suc n = (x div 2) div 2 ^ n"
    by (simp add: zdiv_zmult2_eq)
  from Suc.prems d have pos: "0 < (x div 2) div 2 ^ n" by simp
  then have "0 < x div 2"
    by (smt (verit) div_neg_pos_less0 div_0 zero_less_power)
  then have "0 < x"
    by (smt (verit) div_neg_pos_less0 div_0)
  then have "bitlen x = bitlen (x div 2) + 1"
    by (subst compute_bitlen) simp
  also have "bitlen (x div 2) = bitlen ((x div 2) div 2 ^ n) + int n"
    using Suc.IH[OF pos] .
  finally show ?case by (simp add: zdiv_zmult2_eq)
qed

lemma bitlen_eval:
  "bitlen x = (if 65536 \<le> x then bitlen (x div 65536) + 16
               else if 0 < x then bitlen (x div 2) + 1 else 0)"
proof -
  have "bitlen x = bitlen (x div 65536) + 16" if "65536 \<le> x"
  proof -
    have "0 < x div 2 ^ 16" using that by (simp add: pos_imp_zdiv_pos_iff)
    from bitlen_div_pow2[OF this] show ?thesis by simp
  qed
  then show ?thesis
  proof (cases "65536 \<le> x")
    case True
    with \<open>65536 \<le> x \<Longrightarrow> bitlen x = bitlen (x div 65536) + 16\<close> show ?thesis by simp
  next
    case False
    then show ?thesis by (subst compute_bitlen) simp
  qed
qed

lemma bind_weak_cong: "m = m' \<Longrightarrow> Option.bind m f = Option.bind m' f"
  by simp

lemmas fl_eval =
  rnd64_def round_at_def overflow_def expo_def ilog2_def ceil_pred_def rhe_def half_even_def
  pow2_def bitlen_eval floor_rat_numeral float_of_int_def fsub_def sqrt3_def trunc_def
  fmod_exact_def sign_fix_def Let_def


section \<open>Properties of folder detection and the asset library\<close>

lemmas str_eval =
  ascii_def isdigit_def isspace_def lower_def lower_cp_def startswith_def endswith_def
  contains_def strip_def suffix_def sublist_code

lemma clean_display_name_forest:
  "clean_display_name (ascii ''1 '' @ 0x2022 # ascii '' Realm Brew - Forest Tiles'')
     = ascii ''Forest''"
  by (simp add: clean_display_name_def sub_ordinal_def str_eval)

lemma clean_display_name_magic:
  "clean_display_name (ascii ''Magic Overlays'') = ascii ''Magic''"
  by (simp add: clean_display_name_def sub_ordinal_def str_eval)

lemma clean_display_name_plain:
  "clean_display_name (ascii ''Forest'') = ascii ''Forest''"
  by (simp add: clean_display_name_def sub_ordinal_def str_eval)

lemma forest_tiles_keywords:
  "is_tile_folder (ascii ''1 '' @ 0x2022 # ascii '' Realm Brew - Forest Tiles'')"
  "\<not> is_overlay_folder (ascii ''1 '' @ 0x2022 # ascii '' Realm Brew - Forest Tiles'')"
  by (simp_all add: is_tile_folder_def is_overlay_folder_def str_eval)

lemma magic_overlays_keywords:
  "is_overlay_folder (ascii ''Magic Overlays'')"
  by (simp add: is_overlay_folder_def str_eval)

lemma forest_keywords:
  "\<not> is_tile_folder (ascii ''Forest'')" "\<not> is_overlay_folder (ascii ''Forest'')"
  by (simp_all add: is_tile_folder_def is_overlay_folder_def str_eval)

text \<open>
  A library loaded from a single folder: a directory with at least one PNG whose name has
  no "overlay" in it becomes a tile category, whatever else its name says; with "overlay"
  in its name it becomes an overlay category.
\<close>

lemma library_load_single_tiles:
  assumes "is_dir d" "pngs d \<noteq> []" "\<not> is_overlay_folder (name d)"
  shows "library_load [d] =
           (\<lparr>categories =
               [(clean_display_name (name d),
                 map (\<lambda>p. \<lparr>path = p, category = name d,
                             display_category = clean_display_name (name d)\<rparr>) (sort (pngs d)))],
             overlay_categories = []\<rparr>, True)"
proof -
  have "sort (pngs d) \<noteq> []"
    using assms(2) by (metis length_sort length_0_conv)
  then show ?thesis
    using assms(1,3) by (simp add: library_load_def load_dir_def Let_def)
qed

lemma library_load_single_overlays:
  assumes "is_dir d" "pngs d \<noteq> []" "is_overlay_folder (name d)"
  shows "library_load [d] =
           (\<lparr>categories = [],
             overlay_categories =
               [(clean_display_name (name d),
                 map (\<lambda>p. \<lparr>path = p, category = name d,
                             display_category = clean_display_name (name d)\<rparr>) (sort (pngs d)))]\<rparr>,
            True)"
proof -
  have "sort (pngs d) \<noteq> []"
    using assms(2) by (metis length_sort length_0_conv)
  then show ?thesis
    using assms(1,3) by (simp add: library_load_def load_dir_def Let_def)
qed

text \<open>
  Claim C9. The folder "1 \<bullet> Realm Brew - Forest Tiles" gets the display name "Forest", has
  the keyword "tile" and no "overlay" in its name, and is loaded as a tile category; the
  folder "Magic Overlays" gets the display name "Magic", has "overlay" in its name, and is
  loaded as an overlay category.
\<close>

theorem display_name_scenarios:
  "clean_display_name (ascii ''1 '' @ 0x2022 # ascii '' Realm Brew - Forest Tiles'')
     = ascii ''Forest''
   \<and> is_tile_folder (ascii ''1 '' @ 0x2022 # ascii '' Realm Brew - Forest Tiles'')
   \<and> \<not> is_overlay_folder (ascii ''1 '' @ 0x2022 # ascii '' Realm Brew - Forest Tiles'')
   \<and> map fst (categories (fst (library_load
         [\<lparr>name = ascii ''1 '' @ 0x2022 # ascii '' Realm Brew - Forest Tiles'',
           is_dir = True, pngs = [ascii ''grass.png'']\<rparr>]))) = [ascii ''Forest'']
   \<and> clean_display_name (ascii ''Magic Overlays'') = ascii ''Magic''
   \<and> is_overlay_folder (ascii ''Magic Overlays'')
   \<and> map fst (overlay_categories (fst (library_load
         [\<lparr>name = ascii ''Magic Overlays'', is_dir = True, pngs = [ascii ''rune.png'']\<rparr>])))
       = [ascii ''Magic'']"
  using forest_tiles_keywords magic_overlays_keywords
  by (simp add: library_load_single_tiles library_load_single_overlays
        clean_display_name_forest clean_display_name_magic)

theorem display_name_scenarios_witness:
  "clean_display_name (ascii ''Magic Overlays'') = ascii ''Magic''
   \<and> clean_display_name (ascii ''1 '' @ 0x2022 # ascii '' Realm Brew - Forest Tiles'')
       = ascii ''Forest''"
  using display_name_scenarios by blast

text \<open>
  Claim C2. The claim says that a folder with PNGs whose name has neither "overlay" nor one
  of the tile keywords in it is skipped. \<open>TileLibrary.load\<close> never calls
  \<open>_is_tile_folder\<close>: every directory with a PNG that is not an overlay folder becomes a tile
  category. The theorem states what the code does; its witness is the folder "Forest".
\<close>

theorem library_load_ignores_tile_keywords:
  assumes "is_dir d" "pngs d \<noteq> []" "\<not> is_overlay_folder (name d)" "\<not> is_tile_folder (name d)"
  shows "map fst (categories (fst (library_load [d]))) = [clean_display_name (name d)]"
  using assms by (simp add: library_load_single_tiles)

theorem library_load_ignores_tile_keywords_witness:
  "\<not> is_overlay_folder (ascii ''Forest'') \<and> \<not> is_tile_folder (ascii ''Forest'')
   \<and> map fst (categories (fst (library_load
         [\<lparr>name = ascii ''Forest'', is_dir = True, pngs = [ascii ''oak.png'']\<rparr>])))
       = [ascii ''Forest'']"
  using library_load_ignores_tile_keywords
          [of "\<lparr>name = ascii ''Forest'', is_dir = True, pngs = [ascii ''oak.png'']\<rparr>"]
        forest_keywords
  by (simp add: clean_display_name_plain)


section \<open>Properties of saving and loading\<close>







text \<open>What \<open>load\<close> reads is a dictionary of the editor again.\<close>

lemma list_all_update:
  "list_all P ps \<Longrightarrow> P (k, v) \<Longrightarrow> list_all P (AList.update k v ps)"
  by (induction ps) auto

lemma dict_ok_update:
  "dict_ok ts \<Longrightarrow> dict_ok (AList.update (tile_col t, tile_row t) t ts)"
  by (simp add: dict_ok_def distinct_update list_all_update)

lemma read_tiles_dict_ok: "dict_ok acc \<Longrightarrow> read_tiles ds acc = Inr ts \<Longrightarrow> dict_ok ts"
  by (induction ds arbitrary: acc) (auto split: sum.splits intro: dict_ok_update)

text \<open>
  A failure before the tiles are assigned (an unreadable or malformed file, a tile that
  lacks a key) leaves the map as it was.
\<close>

lemma load_early_failure:
  "fs p = Unreadable \<or> fs p = Malformed
     \<or> (\<exists>data e. fs p = Document data \<and> read_tiles (get_default (doc_tiles data) []) [] = Inl e)
   \<Longrightarrow> snd (load m p fs) = m \<and> fst (load m p fs) \<noteq> None"
  by (auto simp: load_def)

text \<open>
  Claim C1. The claim says that a load that fails leaves the tiles and the overlays of the
  map unchanged. In \<open>HexMap.load\<close> the tiles are assigned before the overlays are read: when
  the document's tiles are read and one of its overlays lacks a required key, the call
  raises \<open>KeyError\<close> and leaves the map with the tiles of the document and the overlays it
  had. The theorem states what the code does; its witness is a map with one tile and a
  document with another tile and an overlay without \<open>col\<close>.
\<close>

theorem load_overlay_failure_replaces_tiles:
  assumes "fs p = Document data"
    and "read_tiles (get_default (doc_tiles data) []) [] = Inr ts"
    and "read_overlays (get_default (doc_overlays data) []) = Inl e"
  shows "load m p fs = (Some e, m\<lparr>tiles := ts\<rparr>)"
  using assms by (simp add: load_def)

theorem load_overlay_failure_replaces_tiles_witness:
  "load \<lparr>tiles = [((0, 0), \<lparr>tile_col = 0, tile_row = 0, tile_path = ascii ''old.png'',
                             tile_category = ascii ''Forest'', tile_rotation = 0\<rparr>)],
         overlays = [], filepath = None\<rparr>
        (ascii ''m.hexmap'')
        (\<lambda>p. Document
           \<lparr>doc_tiles = Some [\<lparr>td_col = Some 5, td_row = Some 5, td_path = Some (ascii ''new.png''),
                                td_category = None, td_rotation = None\<rparr>],
            doc_overlays = Some [\<lparr>od_col = None, od_row = Some 0, od_path = Some (ascii ''x.png''),
                                   od_offset_x = None, od_offset_y = None, od_rotation = None,
                                   od_scale = None\<rparr>]\<rparr>)
     = (Some (KeyError (ascii ''col'')),
        \<lparr>tiles = [((5, 5), \<lparr>tile_col = 5, tile_row = 5, tile_path = ascii ''new.png'',
                             tile_category = [], tile_rotation = 0\<rparr>)],
         overlays = [], filepath = None\<rparr>)"
  using load_overlay_failure_replaces_tiles
    [where fs = "\<lambda>p. Document
           \<lparr>doc_tiles = Some [\<lparr>td_col = Some 5, td_row = Some 5, td_path = Some (ascii ''new.png''),
                                td_category = None, td_rotation = None\<rparr>],
            doc_overlays = Some [\<lparr>od_col = None, od_row = Some 0, od_path = Some (ascii ''x.png''),
                                   od_offset_x = None, od_offset_y = None, od_rotation = None,
                                   od_scale = None\<rparr>]\<rparr>"
       and p = "ascii ''m.hexmap''"
       and ts = "[((5, 5), \<lparr>tile_col = 5, tile_row = 5, tile_path = ascii ''new.png'',
                                 tile_category = [], tile_rotation = 0\<rparr>)]"
       and e = "KeyError (ascii ''col'')"
       and m = "\<lparr>tiles = [((0, 0), \<lparr>tile_col = 0, tile_row = 0, tile_path = ascii ''old.png'',
                             tile_category = ascii ''Forest'', tile_rotation = 0\<rparr>)],
         overlays = [], filepath = None\<rparr>"]
  by (simp add: get_default_def read_tile_def read_overlay_def)




section \<open>Properties of placing a tile\<close>

lemma length_update_present:
  "k \<in> fst ` set ps \<Longrightarrow> length (AList.update k v ps) = length ps"
  by (induction ps) auto

text \<open>
  Claim C5. A click in a mode other than \<open>place_overlay\<close> selects the clicked hex and leaves
  a dictionary with no coordinate twice. When a tile is chosen in the mode \<open>place_tile\<close> and
  the clicked coordinate holds a tile already, the number of tiles is unchanged and the
  coordinate holds the new tile: the chosen path and category and the current rotation.
\<close>

theorem on_click_overwrites:
  assumes "to_hex app ex ey = Some (col, row)"
    and "mode app \<noteq> Place_overlay"
    and "dict_ok (tiles (hex_map app))"
  shows "\<exists>app'. on_click app ex ey = Some app'
           \<and> selected_hex app' = Some (col, row)
           \<and> dict_ok (tiles (hex_map app'))
           \<and> (mode app = Place_tile \<and> sel_tile_idx app = Some i \<and> sel_category app = Some cat
                \<and> cat \<noteq> [] \<and> map_of (categories (library app)) cat = Some ts \<and> i < length ts
                \<and> (col, row) \<in> fst ` set (tiles (hex_map app))
              \<longrightarrow> length (tiles (hex_map app')) = length (tiles (hex_map app))
                  \<and> map_of (tiles (hex_map app')) (col, row)
                      = Some \<lparr>tile_col = col, tile_row = row, tile_path = path (ts ! i),
                               tile_category = cat, tile_rotation = placement_rot app\<rparr>)"
proof -
  let ?t = "\<lambda>c ts. \<lparr>tile_col = col, tile_row = row, tile_path = path (ts ! (the (sel_tile_idx app))),
                      tile_category = c, tile_rotation = placement_rot app\<rparr>"
  have ok: "dict_ok (AList.update (col, row) (?t c us) (tiles (hex_map app)))" for c us
    using dict_ok_update[OF assms(3), of "?t c us"] by simp
  show ?thesis
    using assms(1,2) ok
    by (auto simp: on_click_def click_tile_def Let_def get_default_def length_update_present
          update_conv' assms(3) split: Mode.splits option.splits)
qed

text \<open>The witness: the camera at the origin, the hex size 60, a click at \<open>(0, 0)\<close>, which is in
  the hex \<open>(0, 0)\<close>, where the map has a tile.\<close>

lemma to_hex_origin:
  "to_hex \<lparr>library = lib, hex_map = m, hex_size = 60, cam_x = F (Fin 0), cam_y = F (Fin 0),
           mode = md, selected_hex = sh, sel_category = sc, sel_tile_idx = si,
           placement_rot = pr, selected_ov_idx = so,
           sel_ov_category = oc, sel_overlay_idx = oi, drag_ov_idx = di,
           drag_ov_offset = dof\<rparr> 0 0 = Some (0, 0)"
  by (simp add: to_hex_def pixel_to_hex_def offsets_def candidate_def hex_to_pixel_def fl_eval
        cong: bind_weak_cong let_weak_cong)

theorem on_click_overwrites_witness:
  "\<exists>app'. on_click
      \<lparr>library = \<lparr>categories = [(ascii ''Forest'',
                      [\<lparr>path = ascii ''Forest/oak.png'', category = ascii ''Forest Tiles'',
                        display_category = ascii ''Forest''\<rparr>])],
                  overlay_categories = []\<rparr>,
       hex_map = \<lparr>tiles = [((0, 0), \<lparr>tile_col = 0, tile_row = 0, tile_path = ascii ''old.png'',
                                      tile_category = ascii ''Cave'', tile_rotation = 0\<rparr>)],
                  overlays = [], filepath = None\<rparr>,
       hex_size = 60, cam_x = F (Fin 0), cam_y = F (Fin 0), mode = Place_tile,
       selected_hex = None, sel_category = Some (ascii ''Forest''), sel_tile_idx = Some 0,
       placement_rot = 2, selected_ov_idx = None,
      sel_ov_category = None, sel_overlay_idx = None, drag_ov_idx = None,
      drag_ov_offset = (I 0, I 0)\<rparr> 0 0 = Some app'
     \<and> length (tiles (hex_map app')) = 1
     \<and> map_of (tiles (hex_map app')) (0, 0)
         = Some \<lparr>tile_col = 0, tile_row = 0, tile_path = ascii ''Forest/oak.png'',
                  tile_category = ascii ''Forest'', tile_rotation = 2\<rparr>"
  using on_click_overwrites
    [of "\<lparr>library = \<lparr>categories = [(ascii ''Forest'',
                      [\<lparr>path = ascii ''Forest/oak.png'', category = ascii ''Forest Tiles'',
                        display_category = ascii ''Forest''\<rparr>])],
                  overlay_categories = []\<rparr>,
       hex_map = \<lparr>tiles = [((0, 0), \<lparr>tile_col = 0, tile_row = 0, tile_path = ascii ''old.png'',
                                      tile_category = ascii ''Cave'', tile_rotation = 0\<rparr>)],
                  overlays = [], filepath = None\<rparr>,
       hex_size = 60, cam_x = F (Fin 0), cam_y = F (Fin 0), mode = Place_tile,
       selected_hex = None, sel_category = Some (ascii ''Forest''), sel_tile_idx = Some 0,
       placement_rot = 2, selected_ov_idx = None,
      sel_ov_category = None, sel_overlay_idx = None, drag_ov_idx = None,
      drag_ov_offset = (I 0, I 0)\<rparr>" 0 0 0 0 0 "ascii ''Forest''"
       "[\<lparr>path = ascii ''Forest/oak.png'', category = ascii ''Forest Tiles'',
          display_category = ascii ''Forest''\<rparr>]"]
  by (auto simp add: to_hex_origin dict_ok_def ascii_def)


section \<open>Properties of rotating an overlay\<close>

lemma selected_overlay_put:
  "selected_overlay app = Some (i, ov) \<Longrightarrow> selected_overlay (put_overlay app i ov') = Some (i, ov')"
  by (auto simp: selected_overlay_def put_overlay_def split: option.splits if_splits)

lemma put_overlay_twice: "put_overlay (put_overlay app i a) i b = put_overlay app i b"
  by (simp add: put_overlay_def)

lemma put_overlay_same: "selected_overlay app = Some (i, ov) \<Longrightarrow> put_overlay app i ov = app"
  by (auto simp: selected_overlay_def put_overlay_def split: option.splits if_splits)

lemma rotated_int: "rotated (I r) delta = Some (I ((r + delta) mod 360))"
  by (simp add: rotated_def)

lemma rotate_overlay_int:
  "selected_overlay app = Some (i, ov) \<Longrightarrow> ov_rotation ov = I r \<Longrightarrow>
   rotate_overlay app delta = Some (put_overlay app i (ov\<lparr>ov_rotation := I ((r + delta) mod 360)\<rparr>))"
  by (simp add: rotate_overlay_def rotated_int)

lemma repeat_Suc: "repeat (Suc n) h app = repeat n h app \<bind> h"
  by (simp add: repeat_def)

lemma repeat_rotate:
  assumes "selected_overlay app = Some (i, ov)" "ov_rotation ov = I r"
  shows "repeat (Suc n) (\<lambda>a. rotate_overlay a delta) app
           = Some (put_overlay app i (ov\<lparr>ov_rotation := I ((r + delta * (int n + 1)) mod 360)\<rparr>))"
proof (induction n)
  case 0
  show ?case
    using rotate_overlay_int[OF assms, of delta] by (simp add: repeat_def)
next
  case (Suc n)
  let ?k = "(r + delta * (int n + 1)) mod 360"
  have sel: "selected_overlay (put_overlay app i (ov\<lparr>ov_rotation := I ?k\<rparr>))
               = Some (i, ov\<lparr>ov_rotation := I ?k\<rparr>)"
    using assms(1) by (rule selected_overlay_put)
  have "(?k + delta) mod 360 = (r + delta * (int n + 1) + delta) mod 360"
    by (rule mod_add_left_eq)
  also have "r + delta * (int n + 1) + delta = r + delta * (int (Suc n) + 1)"
    by (simp add: algebra_simps)
  finally have m: "(?k + delta) mod 360 = (r + delta * (int (Suc n) + 1)) mod 360" .
  show ?case
    by (subst repeat_Suc, subst Suc.IH)
       (simp add: rotate_overlay_int[OF sel] put_overlay_twice m del: of_nat_Suc)
qed

text \<open>
  Claim C7, for an overlay whose rotation is an int, as every rotation made in the editor
  is (a placed overlay starts at \<open>0\<close> and the steps are \<open>15\<close> and \<open>-15\<close>): after a step the
  rotation is the int \<open>(r + delta) mod 360\<close>, which lies in \<open>[0, 360)\<close>; twenty-four steps of
  \<open>+15\<close> give \<open>r mod 360\<close> and change nothing else, so a rotation that was in \<open>[0, 360)\<close> is
  back at its value and the editor is in the state it started from.
\<close>

theorem rotate_overlay_wraps:
  assumes "selected_overlay app = Some (i, ov)" and "ov_rotation ov = I r"
  shows "(\<exists>app'. rotate_overlay app delta = Some app'
            \<and> selected_overlay app' = Some (i, ov\<lparr>ov_rotation := I ((r + delta) mod 360)\<rparr>)
            \<and> 0 \<le> (r + delta) mod 360 \<and> (r + delta) mod 360 < 360)
         \<and> repeat 24 (\<lambda>a. rotate_overlay a 15) app
             = Some (put_overlay app i (ov\<lparr>ov_rotation := I (r mod 360)\<rparr>))
         \<and> (0 \<le> r \<and> r < 360 \<longrightarrow> repeat 24 (\<lambda>a. rotate_overlay a 15) app = Some app)"
proof -
  have one: "\<exists>app'. rotate_overlay app delta = Some app'
            \<and> selected_overlay app' = Some (i, ov\<lparr>ov_rotation := I ((r + delta) mod 360)\<rparr>)
            \<and> 0 \<le> (r + delta) mod 360 \<and> (r + delta) mod 360 < 360"
    using rotate_overlay_int[OF assms, of delta] selected_overlay_put[OF assms(1)] by simp
  have "repeat (Suc 23) (\<lambda>a. rotate_overlay a 15) app
          = Some (put_overlay app i (ov\<lparr>ov_rotation := I ((r + 15 * (int 23 + 1)) mod 360)\<rparr>))"
    by (rule repeat_rotate[OF assms])
  then have many: "repeat 24 (\<lambda>a. rotate_overlay a 15) app
             = Some (put_overlay app i (ov\<lparr>ov_rotation := I (r mod 360)\<rparr>))"
    by simp
  have "ov\<lparr>ov_rotation := I (r mod 360)\<rparr> = ov" if "0 \<le> r" "r < 360"
    using that assms(2) by simp
  with many put_overlay_same[OF assms(1)] one show ?thesis by auto
qed

theorem rotate_overlay_wraps_witness:
  "(\<exists>app'. rotate_overlay
      \<lparr>library = \<lparr>categories = [], overlay_categories = []\<rparr>,
      hex_map = \<lparr>tiles = [],
                 overlays = [\<lparr>ov_col = 0, ov_row = 0, ov_path = ascii ''rune.png'',
                              offset_x = I 0, offset_y = I 0,
                              ov_rotation = I 350,
                              ov_scale = F (Fin (1 / 2))\<rparr>],
                 filepath = None\<rparr>,
      hex_size = 60, cam_x = F (Fin 550), cam_y = F (Fin 380), mode = Place_overlay,
      selected_hex = None, sel_category = None, sel_tile_idx = None, placement_rot = 0,
      selected_ov_idx = Some 0,
      sel_ov_category = None, sel_overlay_idx = None, drag_ov_idx = None,
      drag_ov_offset = (I 0, I 0)\<rparr> 15 = Some app'
     \<and> selected_overlay app' = Some (0, \<lparr>ov_col = 0, ov_row = 0, ov_path = ascii ''rune.png'',
                              offset_x = I 0, offset_y = I 0,
                              ov_rotation = I 5,
                              ov_scale = F (Fin (1 / 2))\<rparr>))
   \<and> repeat 24 (\<lambda>a. rotate_overlay a 15)
      \<lparr>library = \<lparr>categories = [], overlay_categories = []\<rparr>,
      hex_map = \<lparr>tiles = [],
                 overlays = [\<lparr>ov_col = 0, ov_row = 0, ov_path = ascii ''rune.png'',
                              offset_x = I 0, offset_y = I 0,
                              ov_rotation = I 350,
                              ov_scale = F (Fin (1 / 2))\<rparr>],
                 filepath = None\<rparr>,
      hex_size = 60, cam_x = F (Fin 550), cam_y = F (Fin 380), mode = Place_overlay,
      selected_hex = None, sel_category = None, sel_tile_idx = None, placement_rot = 0,
      selected_ov_idx = Some 0,
      sel_ov_category = None, sel_overlay_idx = None, drag_ov_idx = None,
      drag_ov_offset = (I 0, I 0)\<rparr>
     = Some
      \<lparr>library = \<lparr>categories = [], overlay_categories = []\<rparr>,
      hex_map = \<lparr>tiles = [],
                 overlays = [\<lparr>ov_col = 0, ov_row = 0, ov_path = ascii ''rune.png'',
                              offset_x = I 0, offset_y = I 0,
                              ov_rotation = I 350,
                              ov_scale = F (Fin (1 / 2))\<rparr>],
                 filepath = None\<rparr>,
      hex_size = 60, cam_x = F (Fin 550), cam_y = F (Fin 380), mode = Place_overlay,
      selected_hex = None, sel_category = None, sel_tile_idx = None, placement_rot = 0,
      selected_ov_idx = Some 0,
      sel_ov_category = None, sel_overlay_idx = None, drag_ov_idx = None,
      drag_ov_offset = (I 0, I 0)\<rparr>"
  using rotate_overlay_wraps
    [of "\<lparr>library = \<lparr>categories = [], overlay_categories = []\<rparr>,
      hex_map = \<lparr>tiles = [],
                 overlays = [\<lparr>ov_col = 0, ov_row = 0, ov_path = ascii ''rune.png'',
                              offset_x = I 0, offset_y = I 0,
                              ov_rotation = I 350,
                              ov_scale = F (Fin (1 / 2))\<rparr>],
                 filepath = None\<rparr>,
      hex_size = 60, cam_x = F (Fin 550), cam_y = F (Fin 380), mode = Place_overlay,
      selected_hex = None, sel_category = None, sel_tile_idx = None, placement_rot = 0,
      selected_ov_idx = Some 0,
      sel_ov_category = None, sel_overlay_idx = None, drag_ov_idx = None,
      drag_ov_offset = (I 0, I 0)\<rparr>" 0
        "\<lparr>ov_col = 0, ov_row = 0, ov_path = ascii ''rune.png'',
                              offset_x = I 0, offset_y = I 0,
                              ov_rotation = I 350,
                              ov_scale = F (Fin (1 / 2))\<rparr>" 350 15]
  by (simp add: selected_overlay_def put_overlay_def)

text \<open>
  The claim as stated fails for a rotation that is a float, which a map file can hold: the
  overlay has the rotation \<open>14.999999999999998\<close>, in \<open>[0, 360)\<close>, and the step \<open>-15\<close> leaves it
  at \<open>360.0\<close>. The sum is \<open>-2 ^ -49\<close>, and the float remainder adds \<open>360.0\<close> to it, which rounds
  to \<open>360.0\<close>.
\<close>

theorem rotate_overlay_float_counterexample:
  "rotate_overlay
     \<lparr>library = \<lparr>categories = [], overlay_categories = []\<rparr>,
      hex_map = \<lparr>tiles = [],
                 overlays = [\<lparr>ov_col = 0, ov_row = 0, ov_path = ascii ''rune.png'',
                              offset_x = I 0, offset_y = I 0,
                              ov_rotation = F (Fin (8444249301319679 / 2 ^ 49)),
                              ov_scale = F (Fin (1 / 2))\<rparr>],
                 filepath = None\<rparr>,
      hex_size = 60, cam_x = F (Fin 550), cam_y = F (Fin 380), mode = Place_overlay,
      selected_hex = None, sel_category = None, sel_tile_idx = None, placement_rot = 0,
      selected_ov_idx = Some 0,
      sel_ov_category = None, sel_overlay_idx = None, drag_ov_idx = None,
      drag_ov_offset = (I 0, I 0)\<rparr> (- 15)
   = Some
     \<lparr>library = \<lparr>categories = [], overlay_categories = []\<rparr>,
      hex_map = \<lparr>tiles = [],
                 overlays = [\<lparr>ov_col = 0, ov_row = 0, ov_path = ascii ''rune.png'',
                              offset_x = I 0, offset_y = I 0,
                              ov_rotation = F (Fin 360),
                              ov_scale = F (Fin (1 / 2))\<rparr>],
                 filepath = None\<rparr>,
      hex_size = 60, cam_x = F (Fin 550), cam_y = F (Fin 380), mode = Place_overlay,
      selected_hex = None, sel_category = None, sel_tile_idx = None, placement_rot = 0,
      selected_ov_idx = Some 0,
      sel_ov_category = None, sel_overlay_idx = None, drag_ov_idx = None,
      drag_ov_offset = (I 0, I 0)\<rparr>
   \<and> num_lt (F (Fin (8444249301319679 / 2 ^ 49))) (I 360)
   \<and> \<not> num_lt (F (Fin (8444249301319679 / 2 ^ 49))) (I 0)
   \<and> \<not> num_lt (F (Fin 360)) (I 360)"
  by (simp add: rotate_overlay_def selected_overlay_def put_overlay_def rotated_def fl_eval
        cong: bind_weak_cong)


section \<open>Bounds on rounding\<close>

text \<open>
  Facts about \<open>rnd64\<close> for arbitrary arguments: the error of one rounding, that rounding
  never crosses a double, and that a double is rounded to itself.
\<close>

subsection \<open>Powers of two\<close>

lemma pow2_powi: "pow2 e = 2 powi e"
  by (simp add: pow2_def power_int_def inverse_eq_divide power_one_over)

lemma pow2_pos [simp]: "0 < pow2 e"
  by (simp add: pow2_powi)

lemma pow2_nonzero [simp]: "pow2 e \<noteq> 0"
  by (simp add: pow2_powi)

lemma pow2_abs [simp]: "\<bar>pow2 e\<bar> = pow2 e"
  using pow2_pos[of e] by (simp only: abs_of_pos)

lemma pow2_nonneg [simp]: "0 \<le> pow2 e"
  using pow2_pos[of e] by (simp only: less_imp_le)

lemma pow2_add: "pow2 (a + b) = pow2 a * pow2 b"
  by (simp add: pow2_powi power_int_add)

lemma pow2_mono: "a \<le> b \<Longrightarrow> pow2 a \<le> pow2 b"
  by (simp add: pow2_powi power_int_increasing)

lemma pow2_strict_mono: "a < b \<Longrightarrow> pow2 a < pow2 b"
  by (simp add: pow2_powi power_int_strict_increasing)

lemma pow2_less_cancel: "pow2 a < pow2 b \<Longrightarrow> a < b"
  using pow2_mono[of b a] by (cases "a < b") auto

lemma pow2_le_cancel: "pow2 a \<le> pow2 b \<Longrightarrow> a \<le> b"
  using pow2_strict_mono[of b a] by (cases "a \<le> b") auto

lemma pow2_nat: "0 \<le> e \<Longrightarrow> pow2 e = 2 ^ nat e"
  by (simp add: pow2_def)

lemma pow2_Suc: "pow2 (e + 1) = 2 * pow2 e"
  using pow2_add[of e 1] by (simp add: pow2_def)

lemma pow2_pred: "pow2 (e - 1) = pow2 e / 2"
  using pow2_Suc[of "e - 1"] by simp

text \<open>A power of two is an integer multiple of every smaller one.\<close>

lemma pow2_multiple: "b \<le> a \<Longrightarrow> pow2 a = of_int (2 ^ nat (a - b)) * pow2 b"
  using pow2_add[of "a - b" b] by (simp add: pow2_nat)

subsection \<open>Rounding to an integer\<close>

lemma half_even_err:
  "0 \<le> d \<Longrightarrow> d < 1 \<Longrightarrow> \<bar>of_int (half_even f d) - (of_int f + d)\<bar> \<le> 1 / 2"
  by (auto simp: half_even_def abs_if)

lemma rhe_minus: "rhe (- x) = - rhe x"
  by (cases "x = 0") (auto simp: rhe_def half_even_def)

lemma rhe_err_nonneg: "0 \<le> x \<Longrightarrow> \<bar>of_int (rhe x) - x\<bar> \<le> 1 / 2"
proof -
  assume "0 \<le> x"
  have "0 \<le> x - of_int \<lfloor>x\<rfloor>" "x - of_int \<lfloor>x\<rfloor> < 1"
    by linarith+
  from half_even_err[OF this, of "\<lfloor>x\<rfloor>"] \<open>0 \<le> x\<close> show ?thesis
    by (simp add: rhe_def)
qed

lemma rhe_err: "\<bar>of_int (rhe x) - x\<bar> \<le> 1 / 2"
proof (cases "0 \<le> x")
  case True
  then show ?thesis by (rule rhe_err_nonneg)
next
  case False
  then have "\<bar>of_int (rhe (- x)) - (- x)\<bar> \<le> 1 / 2"
    by (intro rhe_err_nonneg) simp
  then show ?thesis by (simp add: rhe_minus abs_if split: if_splits)
qed

lemma rhe_ge: "of_int n \<le> x \<Longrightarrow> n \<le> rhe x"
proof (rule ccontr)
  assume le: "of_int n \<le> x" and "\<not> n \<le> rhe x"
  then have "rhe x \<le> n - 1" by simp
  then have "(of_int (rhe x) :: rat) \<le> of_int n - 1"
    by (metis of_int_le_iff of_int_diff of_int_1)
  with rhe_err[of x] le show False by (simp add: abs_if split: if_splits)
qed

lemma rhe_le: "x \<le> of_int n \<Longrightarrow> rhe x \<le> n"
  using rhe_ge[of "- n" "- x"] by (simp add: rhe_minus)

lemma rhe_of_int [simp]: "rhe (of_int n) = n"
  using rhe_ge[of n "of_int n"] rhe_le[of "of_int n" n] by simp

subsection \<open>The exponent\<close>

lemma ilog2_bounds:
  assumes "0 < x"
  shows "pow2 (ilog2 x) \<le> x" and "x < pow2 (ilog2 x + 1)"
proof -
  have "pow2 (ilog2 x) \<le> x \<and> x < pow2 (ilog2 x + 1)"
  proof (cases "1 \<le> x")
    case True
    let ?n = "\<lfloor>x\<rfloor>"
    have n: "0 < ?n" using True by simp
    have b1: "1 \<le> bitlen ?n"
      using n bitlen_eq_zero_iff[of ?n] bitlen_nonneg[of ?n] by linarith
    from bitlen_bounds[OF n] have lo: "2 ^ nat (bitlen ?n - 1) \<le> ?n" and hi: "?n < 2 ^ nat (bitlen ?n)"
      by auto
    have "pow2 (bitlen ?n - 1) = of_int (2 ^ nat (bitlen ?n - 1))"
      using b1 by (simp add: pow2_nat)
    also have "\<dots> \<le> of_int ?n" using lo by (simp only: of_int_le_iff)
    also have "\<dots> \<le> x" by simp
    finally have A: "pow2 (bitlen ?n - 1) \<le> x" .
    have "?n + 1 \<le> 2 ^ nat (bitlen ?n)" using hi by simp
    then have "(of_int (?n + 1) :: rat) \<le> of_int (2 ^ nat (bitlen ?n))"
      by (simp only: of_int_le_iff)
    moreover have "x < of_int (?n + 1)" by linarith
    ultimately have "x < of_int (2 ^ nat (bitlen ?n))" by linarith
    also have "\<dots> = pow2 (bitlen ?n)" using b1 by (simp add: pow2_nat)
    finally have B: "x < pow2 (bitlen ?n)" .
    from A B True show ?thesis by (simp add: ilog2_def)
  next
    case False
    define y where "y = 1 / x"
    define m where "m = ceil_pred y"
    have y1: "1 < y" using False assms by (simp add: y_def)
    have my: "of_int m < y" "y \<le> of_int m + 1"
    proof -
      define k where "k = \<lfloor>y\<rfloor>"
      have f: "of_int k \<le> y" "y < of_int k + 1" unfolding k_def by linarith+
      have m: "m = (if of_int k = y then k - 1 else k)"
        unfolding m_def ceil_pred_def k_def ..
      show "of_int m < y" "y \<le> of_int m + 1"
        using f unfolding m by (auto split: if_splits)
    qed
    have m1: "0 < m" using y1 my(2) by linarith
    have b1: "1 \<le> bitlen m"
      using m1 bitlen_eq_zero_iff[of m] bitlen_nonneg[of m] by linarith
    from bitlen_bounds[OF m1] have lo: "2 ^ nat (bitlen m - 1) \<le> m" and hi: "m < 2 ^ nat (bitlen m)"
      by auto
    have "m + 1 \<le> 2 ^ nat (bitlen m)" using hi by simp
    then have "(of_int (m + 1) :: rat) \<le> of_int (2 ^ nat (bitlen m))"
      by (simp only: of_int_le_iff)
    with my(2) have "y \<le> of_int (2 ^ nat (bitlen m))" by simp
    also have "\<dots> = pow2 (bitlen m)" using b1 by (simp add: pow2_nat)
    finally have yhi: "y \<le> pow2 (bitlen m)" .
    have "pow2 (bitlen m - 1) = of_int (2 ^ nat (bitlen m - 1))"
      using b1 by (simp add: pow2_nat)
    also have "\<dots> \<le> of_int m" using lo by (simp only: of_int_le_iff)
    also have "\<dots> < y" by (rule my(1))
    finally have ylo: "pow2 (bitlen m - 1) < y" .
    have inv: "pow2 (- e) = 1 / pow2 e" for e
      using pow2_add[of e "- e"] by (simp add: pow2_def field_simps)
    have A: "pow2 (- bitlen m) \<le> x"
      using yhi assms by (simp add: inv y_def field_simps)
    have "x < 1 / pow2 (bitlen m - 1)"
      using ylo assms by (simp add: y_def field_simps)
    then have B: "x < pow2 (- bitlen m + 1)"
      using inv[of "bitlen m - 1"] by simp
    from A B False show ?thesis by (simp add: ilog2_def m_def y_def)
  qed
  then show "pow2 (ilog2 x) \<le> x" and "x < pow2 (ilog2 x + 1)" by auto
qed

lemma expo_ge: "- 1074 \<le> expo x"
  by (simp add: expo_def)

lemma expo_upper: "x \<noteq> 0 \<Longrightarrow> \<bar>x\<bar> < pow2 (expo x + 53)"
proof -
  assume "x \<noteq> 0"
  then have "\<bar>x\<bar> < pow2 (ilog2 \<bar>x\<bar> + 1)" by (intro ilog2_bounds) simp
  also have "\<dots> \<le> pow2 (expo x + 53)" by (intro pow2_mono) (simp add: expo_def)
  finally show ?thesis .
qed

lemma expo_lower: "x \<noteq> 0 \<Longrightarrow> - 1074 < expo x \<Longrightarrow> pow2 (expo x + 52) \<le> \<bar>x\<bar>"
proof -
  assume "x \<noteq> 0" "- 1074 < expo x"
  then have "expo x + 52 = ilog2 \<bar>x\<bar>" by (simp add: expo_def max_def split: if_splits)
  with ilog2_bounds(1)[of "\<bar>x\<bar>"] \<open>x \<noteq> 0\<close> show ?thesis by simp
qed

lemma expo_le: "x \<noteq> 0 \<Longrightarrow> \<bar>x\<bar> \<le> pow2 k \<Longrightarrow> - 1022 \<le> k \<Longrightarrow> expo x \<le> k - 52"
proof -
  assume "x \<noteq> 0" "\<bar>x\<bar> \<le> pow2 k" "- 1022 \<le> k"
  have "pow2 (ilog2 \<bar>x\<bar>) \<le> \<bar>x\<bar>" using \<open>x \<noteq> 0\<close> by (intro ilog2_bounds) simp
  with \<open>\<bar>x\<bar> \<le> pow2 k\<close> have "ilog2 \<bar>x\<bar> \<le> k" by (intro pow2_le_cancel) simp
  with \<open>- 1022 \<le> k\<close> show ?thesis by (simp add: expo_def)
qed

subsection \<open>Rounding to a double\<close>

lemma round_at_grid: "round_at e x = overflow (grid e x)"
  by (simp add: round_at_def grid_def)

lemma grid_err: "\<bar>grid e x - x\<bar> \<le> pow2 (e - 1)"
proof -
  have "grid e x - x = (of_int (rhe (x / pow2 e)) - x / pow2 e) * pow2 e"
    by (simp add: grid_def left_diff_distrib)
  then have "\<bar>grid e x - x\<bar> = \<bar>of_int (rhe (x / pow2 e)) - x / pow2 e\<bar> * pow2 e"
    by (simp add: abs_mult)
  also have "\<dots> \<le> 1 / 2 * pow2 e"
    by (intro mult_right_mono rhe_err) simp
  finally show ?thesis by (simp add: pow2_pred)
qed

lemma grid_ge_multiple: "of_int n * pow2 e \<le> x \<Longrightarrow> of_int n * pow2 e \<le> grid e x"
proof -
  assume "of_int n * pow2 e \<le> x"
  then have "of_int n \<le> x / pow2 e" by (simp add: field_simps)
  then have "n \<le> rhe (x / pow2 e)" by (rule rhe_ge)
  then have "(of_int n :: rat) \<le> of_int (rhe (x / pow2 e))" by (simp only: of_int_le_iff)
  then show ?thesis by (simp add: grid_def)
qed

lemma grid_le_multiple: "x \<le> of_int n * pow2 e \<Longrightarrow> grid e x \<le> of_int n * pow2 e"
proof -
  assume "x \<le> of_int n * pow2 e"
  then have "x / pow2 e \<le> of_int n" by (simp add: field_simps)
  then have "rhe (x / pow2 e) \<le> n" by (rule rhe_le)
  then have "(of_int (rhe (x / pow2 e)) :: rat) \<le> of_int n" by (simp only: of_int_le_iff)
  then show ?thesis by (simp add: grid_def)
qed

lemma grid_abs_le: "e \<le> k \<Longrightarrow> \<bar>x\<bar> \<le> pow2 k \<Longrightarrow> \<bar>grid e x\<bar> \<le> pow2 k"
proof -
  assume "e \<le> k" "\<bar>x\<bar> \<le> pow2 k"
  then have m: "pow2 k = of_int (2 ^ nat (k - e)) * pow2 e" by (intro pow2_multiple)
  have "x \<le> of_int (2 ^ nat (k - e)) * pow2 e" using \<open>\<bar>x\<bar> \<le> pow2 k\<close> m by simp
  from grid_le_multiple[OF this] have A: "grid e x \<le> pow2 k" using m by simp
  have "of_int (- (2 ^ nat (k - e))) * pow2 e \<le> x" using \<open>\<bar>x\<bar> \<le> pow2 k\<close> m by simp
  from grid_ge_multiple[OF this] have B: "- pow2 k \<le> grid e x" using m by simp
  from A B show ?thesis by simp
qed

lemma rnd64_grid: "x \<noteq> 0 \<Longrightarrow> rnd64 x = overflow (grid (expo x) x)"
  by (simp add: rnd64_def round_at_grid)

text \<open>The error of one rounding, for a magnitude of at most \<open>2 ^ k\<close>.\<close>

lemma rnd64_bound:
  assumes "\<bar>x\<bar> \<le> pow2 k" "- 1022 \<le> k" "k \<le> 1023"
  shows "\<exists>y. rnd64 x = Fin y \<and> \<bar>y - x\<bar> \<le> pow2 (k - 53) \<and> \<bar>y\<bar> \<le> pow2 k"
proof (cases "x = 0")
  case True
  then show ?thesis by (simp add: rnd64_def less_imp_le)
next
  case False
  let ?y = "grid (expo x) x"
  have e: "expo x \<le> k - 52" using False assms(1,2) by (rule expo_le)
  then have "\<bar>?y\<bar> \<le> pow2 k" using assms(1) by (intro grid_abs_le) auto
  moreover have "pow2 k < pow2 1024" using assms(3) by (intro pow2_strict_mono) simp
  ultimately have fin: "rnd64 x = Fin ?y" using False by (simp add: rnd64_grid overflow_def)
  have "\<bar>?y - x\<bar> \<le> pow2 (expo x - 1)" by (rule grid_err)
  also have "\<dots> \<le> pow2 (k - 53)" using e by (intro pow2_mono) simp
  finally show ?thesis using fin \<open>\<bar>?y\<bar> \<le> pow2 k\<close> by simp
qed

text \<open>A double below \<open>x\<close> is below the rounding of \<open>x\<close>, and a double is rounded to itself.\<close>

lemma grid_ge_double:
  assumes z: "z = of_int m * pow2 ez" "\<bar>m\<bar> \<le> 2 ^ 53" "- 1074 \<le> ez"
    and "z \<le> x" "x \<noteq> 0"
  shows "z \<le> grid (expo x) x"
proof (cases "expo x \<le> ez")
  case True
  then have "pow2 ez = of_int (2 ^ nat (ez - expo x)) * pow2 (expo x)" by (rule pow2_multiple)
  then have "z = of_int (m * 2 ^ nat (ez - expo x)) * pow2 (expo x)" by (simp add: z(1))
  with grid_ge_multiple[of "m * 2 ^ nat (ez - expo x)" "expo x" x] \<open>z \<le> x\<close> show ?thesis
    by simp
next
  case False
  then have lt: "ez < expo x" by simp
  with z(3) have "- 1074 < expo x" by simp
  with \<open>x \<noteq> 0\<close> have lo: "pow2 (expo x + 52) \<le> \<bar>x\<bar>" by (rule expo_lower)
  have "\<bar>z\<bar> = \<bar>of_int m\<bar> * pow2 ez" by (simp add: z(1) abs_mult)
  also have "\<bar>of_int m :: rat\<bar> \<le> 2 ^ 53"
    using z(2) by (metis of_int_abs of_int_le_iff of_int_numeral of_int_power)
  then have "\<bar>of_int m\<bar> * pow2 ez \<le> 2 ^ 53 * pow2 ez"
    by (intro mult_right_mono) simp_all
  also have "2 ^ 53 * pow2 ez = pow2 (53 + ez)"
    using pow2_add[of 53 ez] by (simp add: pow2_nat[of 53, simplified])
  also have "\<dots> \<le> pow2 (expo x + 52)" using lt by (intro pow2_mono) simp
  finally have zb: "\<bar>z\<bar> \<le> pow2 (expo x + 52)" .
  have m: "pow2 (expo x + 52) = of_int (2 ^ 52) * pow2 (expo x)"
    using pow2_add[of "expo x" 52] by (simp add: pow2_nat[of 52, simplified] mult.commute)
  show ?thesis
  proof (cases "0 < x")
    case True
    with lo have "of_int (2 ^ 52) * pow2 (expo x) \<le> x" using m by simp
    from grid_ge_multiple[OF this] zb m show ?thesis by simp
  next
    case neg: False
    with \<open>x \<noteq> 0\<close> \<open>z \<le> x\<close> lo zb have "z = - pow2 (expo x + 52)" by simp
    then have "z = of_int (- (2 ^ 52)) * pow2 (expo x)" using m by simp
    with grid_ge_multiple[of "- (2 ^ 52)" "expo x" x] \<open>z \<le> x\<close> show ?thesis by simp
  qed
qed

lemma expo_minus [simp]: "expo (- x) = expo x"
  by (simp add: expo_def)

lemma grid_minus: "grid e (- x) = - grid e x"
  by (simp add: grid_def rhe_minus)

lemma grid_le_double:
  assumes z: "z = of_int m * pow2 ez" "\<bar>m\<bar> \<le> 2 ^ 53" "- 1074 \<le> ez"
    and "x \<le> z" "x \<noteq> 0"
  shows "grid (expo x) x \<le> z"
proof -
  have "- z \<le> grid (expo (- x)) (- x)"
    using grid_ge_double[of "- z" "- m" ez "- x"] assms by simp
  then show ?thesis by (simp add: grid_minus)
qed

lemma rnd64_ge_double:
  assumes "z = of_int m * pow2 ez" "\<bar>m\<bar> \<le> 2 ^ 53" "- 1074 \<le> ez"
    and "z \<le> x" "rnd64 x = Fin y"
  shows "z \<le> y"
proof (cases "x = 0")
  case True
  with assms show ?thesis by (simp add: rnd64_def)
next
  case False
  from grid_ge_double[OF assms(1-4) False] assms(5) False show ?thesis
    by (simp add: rnd64_grid overflow_def split: if_splits)
qed

lemma rnd64_le_double:
  assumes "z = of_int m * pow2 ez" "\<bar>m\<bar> \<le> 2 ^ 53" "- 1074 \<le> ez"
    and "x \<le> z" "rnd64 x = Fin y"
  shows "y \<le> z"
proof (cases "x = 0")
  case True
  with assms show ?thesis by (simp add: rnd64_def)
next
  case False
  from grid_le_double[OF assms(1-4) False] assms(5) False show ?thesis
    by (simp add: rnd64_grid overflow_def split: if_splits)
qed


lemma rnd64_not_NaN [simp]: "rnd64 x \<noteq> NaN"
  by (simp add: rnd64_def round_at_def overflow_def)



lemma rhe_numeral [simp]: "rhe (numeral n) = numeral n"
  using rhe_of_int[of "numeral n"] by simp


section \<open>Properties of scaling an overlay\<close>

lemma rnd64_tenth: "rnd64 (1 / 10) = Fin tenth"
  by (simp add: tenth_def fl_eval)

lemma tenth_gt: "1 / 10 < tenth" "tenth < 11 / 100"
  by (simp_all add: tenth_def)

lemma tenth_double: "tenth = of_int 3602879701896397 * pow2 (- 55)"
  by (simp add: tenth_def pow2_def)

lemma num_add_float:
  "num_add s (F d) = (case to_float s of None \<Rightarrow> None | Some a \<Rightarrow> Some (F (fadd a d)))"
  by (cases s) (simp_all split: option.splits)

lemma clamp_float:
  "\<exists>c. py_max (F (Fin tenth)) (py_min (F (Fin 5)) (F a)) = F (Fin c) \<and> tenth \<le> c \<and> c \<le> 5
       \<and> (\<forall>t. a = Fin t \<longrightarrow> c = max tenth (min 5 t))"
  using tenth_gt by (cases a) (auto simp: py_max_def py_min_def max_def min_def)

lemma round2_range:
  assumes "tenth \<le> c" "c \<le> 5"
  shows "\<exists>y. rnd64 (of_int (rhe (c * 100)) / 100) = Fin y \<and> tenth \<le> y \<and> y \<le> 5
             \<and> \<bar>y - c\<bar> \<le> 1 / 200 + pow2 (- 50)
             \<and> 10 \<le> rhe (c * 100) \<and> rhe (c * 100) \<le> 500
             \<and> \<bar>of_int (rhe (c * 100)) / 100 - c\<bar> \<le> 1 / 200"
proof -
  let ?k = "rhe (c * 100)"
  let ?x = "of_int ?k / 100 :: rat"
  have "of_int 10 \<le> c * 100" using assms(1) tenth_gt(1) by simp
  then have lo: "10 \<le> ?k" by (rule rhe_ge)
  have "c * 100 \<le> of_int 500" using assms(2) by simp
  then have hi: "?k \<le> 500" by (rule rhe_le)
  have "\<bar>of_int ?k - c * 100\<bar> \<le> 1 / 2" by (rule rhe_err)
  then have err: "\<bar>?x - c\<bar> \<le> 1 / 200" by (simp add: abs_le_iff field_simps)
  have x5: "?x \<le> 5" using hi by simp
  have x0: "1 / 10 \<le> ?x" using lo by simp
  then have "\<bar>?x\<bar> \<le> pow2 3" using x5 by (simp add: pow2_def)
  from rnd64_bound[OF this] obtain y where
    y: "rnd64 ?x = Fin y" "\<bar>y - ?x\<bar> \<le> pow2 (- 50)" by auto
  have "5 = of_int 5 * pow2 0" by (simp add: pow2_def)
  from rnd64_le_double[OF this _ _ x5 y(1)] have y5: "y \<le> 5" by simp
  have yt: "tenth \<le> y"
  proof (cases "?k = 10")
    case True
    with y(1) show ?thesis by (simp add: rnd64_tenth)
  next
    case False
    with lo have "11 \<le> ?k" by simp
    then have "tenth \<le> ?x" using tenth_gt(2) by simp
    from rnd64_ge_double[OF tenth_double _ _ this y(1)] show ?thesis by simp
  qed
  from y(2) err have "\<bar>y - c\<bar> \<le> 1 / 200 + pow2 (- 50)" by linarith
  with y(1) yt y5 lo hi err show ?thesis by simp
qed

lemma scaled_float:
  "scaled s (F d) =
     (case to_float s of None \<Rightarrow> None
      | Some a \<Rightarrow> Some (num_round2 (py_max (F (Fin tenth)) (py_min (F (Fin 5)) (F (fadd a d))))))"
  by (simp add: scaled_def num_add_float rnd64_tenth split: option.splits)




lemma scale_overlay_step:
  assumes "selected_overlay app = Some (i, ov)" "scaled (ov_scale ov) d = Some v"
  shows "scale_overlay app d = Some (put_overlay app i (ov\<lparr>ov_scale := v\<rparr>))"
  using assms by (simp add: scale_overlay_def)






text \<open>
  Claim C10. \<open>_scale_overlay(d)\<close> with a float \<open>d\<close> stores the two-decimal rounding of the
  clamped sum: the clamped value \<open>c\<close> of \<open>ov.scale + d\<close> lies between \<open>0.1\<close> and \<open>5.0\<close>, the
  integer \<open>k\<close> nearest to \<open>100 c\<close> (ties to even) lies between \<open>10\<close> and \<open>500\<close>, the decimal
  \<open>k / 100\<close> is within half a hundredth of \<open>c\<close>, and the stored scale is the double nearest to
  \<open>k / 100\<close>.
\<close>

theorem scale_overlay_two_decimals:
  assumes "selected_overlay app = Some (i, ov)" and "to_float (ov_scale ov) = Some a"
  shows "\<exists>c k. py_max (F (rnd64 (1 / 10))) (py_min (F (Fin 5)) (F (fadd a d))) = F (Fin c)
            \<and> tenth \<le> c \<and> c \<le> 5
            \<and> k = rhe (c * 100) \<and> 10 \<le> k \<and> k \<le> 500 \<and> \<bar>of_int k / 100 - c\<bar> \<le> 1 / 200
            \<and> scale_overlay app (F d)
                = Some (put_overlay app i (ov\<lparr>ov_scale := F (rnd64 (of_int k / 100))\<rparr>))"
proof -
  from clamp_float[of "fadd a d"] obtain c where
    c: "py_max (F (Fin tenth)) (py_min (F (Fin 5)) (F (fadd a d))) = F (Fin c)"
       "tenth \<le> c" "c \<le> 5" by auto
  from round2_range[OF c(2,3)] have
    k: "10 \<le> rhe (c * 100)" "rhe (c * 100) \<le> 500"
       "\<bar>of_int (rhe (c * 100)) / 100 - c\<bar> \<le> 1 / 200" by auto
  have "scaled (ov_scale ov) (F d) = Some (F (rnd64 (of_int (rhe (c * 100)) / 100)))"
    using assms(2) c(1) by (simp add: scaled_float)
  from scale_overlay_step[OF assms(1) this] c k show ?thesis
    by (simp add: rnd64_tenth)
qed

theorem scale_overlay_two_decimals_witness:
  "\<exists>c k. py_max (F (rnd64 (1 / 10))) (py_min (F (Fin 5)) (F (fadd (Fin (1 / 2)) (Fin (- tenth)))))
            = F (Fin c)
     \<and> tenth \<le> c \<and> c \<le> 5
     \<and> k = rhe (c * 100) \<and> 10 \<le> k \<and> k \<le> 500 \<and> \<bar>of_int k / 100 - c\<bar> \<le> 1 / 200
     \<and> scale_overlay
     \<lparr>library = \<lparr>categories = [], overlay_categories = []\<rparr>,
      hex_map = \<lparr>tiles = [],
                 overlays = [\<lparr>ov_col = 0, ov_row = 0, ov_path = ascii ''rune.png'',
                              offset_x = I 0, offset_y = I 0, ov_rotation = I 0,
                              ov_scale = F (Fin (1 / 2))\<rparr>],
                 filepath = None\<rparr>,
      hex_size = 60, cam_x = F (Fin 550), cam_y = F (Fin 380), mode = Place_overlay,
      selected_hex = None, sel_category = None, sel_tile_idx = None, placement_rot = 0,
      selected_ov_idx = Some 0,
      sel_ov_category = None, sel_overlay_idx = None, drag_ov_idx = None,
      drag_ov_offset = (I 0, I 0)\<rparr> (F (Fin (- tenth)))
   = Some
     \<lparr>library = \<lparr>categories = [], overlay_categories = []\<rparr>,
      hex_map = \<lparr>tiles = [],
                 overlays = [\<lparr>ov_col = 0, ov_row = 0, ov_path = ascii ''rune.png'',
                              offset_x = I 0, offset_y = I 0, ov_rotation = I 0,
                              ov_scale = F (rnd64 (of_int k / 100))\<rparr>],
                 filepath = None\<rparr>,
      hex_size = 60, cam_x = F (Fin 550), cam_y = F (Fin 380), mode = Place_overlay,
      selected_hex = None, sel_category = None, sel_tile_idx = None, placement_rot = 0,
      selected_ov_idx = Some 0,
      sel_ov_category = None, sel_overlay_idx = None, drag_ov_idx = None,
      drag_ov_offset = (I 0, I 0)\<rparr>"
  using scale_overlay_two_decimals
    [of "\<lparr>library = \<lparr>categories = [], overlay_categories = []\<rparr>,
      hex_map = \<lparr>tiles = [],
                 overlays = [\<lparr>ov_col = 0, ov_row = 0, ov_path = ascii ''rune.png'',
                              offset_x = I 0, offset_y = I 0, ov_rotation = I 0,
                              ov_scale = F (Fin (1 / 2))\<rparr>],
                 filepath = None\<rparr>,
      hex_size = 60, cam_x = F (Fin 550), cam_y = F (Fin 380), mode = Place_overlay,
      selected_hex = None, sel_category = None, sel_tile_idx = None, placement_rot = 0,
      selected_ov_idx = Some 0,
      sel_ov_category = None, sel_overlay_idx = None, drag_ov_idx = None,
      drag_ov_offset = (I 0, I 0)\<rparr>" 0
        "\<lparr>ov_col = 0, ov_row = 0, ov_path = ascii ''rune.png'',
          offset_x = I 0, offset_y = I 0, ov_rotation = I 0, ov_scale = F (Fin (1 / 2))\<rparr>" "Fin (1 / 2)" "Fin (- tenth)"]
  by (simp add: selected_overlay_def put_overlay_def)


end
